theory Spec2Isabelle
  imports Main "HOL-Library.Word" "HOL-Library.Signed_Division" "HOL-Library.AList"
begin

section \<open>Types of the semantic representation\<close>

text \<open>
  The tag of \<open>ASR::ttype_t\<close>. The enumeration itself is declared in \<open>asr.h\<close>. The order
  of its first twelve tags is the one the rows of \<open>ImplicitCastRules::type_names\<close> spell
  out, which that table is indexed by (\<open>type_names[dest_type->type]\<close>), with
  \<open>num_types = 12\<close> entries. The code builds one more type, \<open>Class\<close>
  (\<open>make_Class_t\<close> in \<open>visit_Declaration\<close>), which none of the tables lists.

  Modelled from the spec: the enumerator of \<open>Class\<close> (\<open>asr.h\<close> is not part of the
  sources). The specification counts six families and their pointer variants for the
  tables and names \<open>Class\<close> as a further variant; it is taken as the tag after the
  twelve, the only place that leaves the twelve where the tables expect them.
\<close>

datatype ttypeType =
    Integer | Real | Complex | Character | Logical | Derived
  | IntegerPointer | RealPointer | ComplexPointer | CharacterPointer
  | LogicalPointer | DerivedPointer
  | Class

text \<open>The integer value of a tag, as the table lookups use it.\<close>

fun ttype_index :: "ttypeType \<Rightarrow> nat" where
  "ttype_index Integer = 0"
| "ttype_index Real = 1"
| "ttype_index Complex = 2"
| "ttype_index Character = 3"
| "ttype_index Logical = 4"
| "ttype_index Derived = 5"
| "ttype_index IntegerPointer = 6"
| "ttype_index RealPointer = 7"
| "ttype_index ComplexPointer = 8"
| "ttype_index CharacterPointer = 9"
| "ttype_index LogicalPointer = 10"
| "ttype_index DerivedPointer = 11"
| "ttype_index Class = 12"

definition num_types :: nat where
  "num_types = 12"

text \<open>
  A type node: its tag, its kind (what \<open>extract_kind_from_ttype_t\<close> reads from it) and
  the number of its dimension bounds.
\<close>

record ttype =
  type_tag :: ttypeType
  m_kind :: int
  n_dims :: nat

text \<open>
  Modelled from the spec: \<open>ASRUtils::is_pointer\<close>, \<open>ASRUtils::is_same_type_pointer\<close>,
  \<open>ASRUtils::extract_kind_from_ttype_t\<close> and \<open>ASRUtils::is_array\<close> (\<open>asr_utils.h\<close> is
  not part of the sources). A type is a pointer when its tag is one of the pointer variants;
  two types are a same-type pointer pair when exactly one of them is a pointer and both
  belong to one family; an array type has dimension bounds. \<open>Class\<close> has no pointer
  variant and is a family of its own.
\<close>

fun is_pointer_tag :: "ttypeType \<Rightarrow> bool" where
  "is_pointer_tag IntegerPointer = True"
| "is_pointer_tag RealPointer = True"
| "is_pointer_tag ComplexPointer = True"
| "is_pointer_tag CharacterPointer = True"
| "is_pointer_tag LogicalPointer = True"
| "is_pointer_tag DerivedPointer = True"
| "is_pointer_tag _ = False"

fun base_family :: "ttypeType \<Rightarrow> ttypeType" where
  "base_family IntegerPointer = Integer"
| "base_family RealPointer = Real"
| "base_family ComplexPointer = Complex"
| "base_family CharacterPointer = Character"
| "base_family LogicalPointer = Logical"
| "base_family DerivedPointer = Derived"
| "base_family t = t"

definition is_pointer :: "ttype \<Rightarrow> bool" where
  "is_pointer t = is_pointer_tag (type_tag t)"

definition is_same_type_pointer :: "ttype \<Rightarrow> ttype \<Rightarrow> bool" where
  "is_same_type_pointer source dest =
     (is_pointer source \<noteq> is_pointer dest \<and>
      base_family (type_tag source) = base_family (type_tag dest))"

definition extract_kind_from_ttype_t :: "ttype \<Rightarrow> int" where
  "extract_kind_from_ttype_t t = m_kind t"

definition is_array :: "ttype \<Rightarrow> bool" where
  "is_array t = (0 < n_dims t)"

datatype cast_kindType =
    RealToInteger | IntegerToReal | RealToReal | IntegerToInteger
  | RealToComplex | IntegerToComplex | IntegerToLogical | ComplexToComplex

datatype binopType = Add | Sub | Mul | Div | Pow

datatype cmpopType = Eq | Gt | GtE | Lt | LtE | NotEq

datatype boolopType = And | Or | NEqv | Eqv

text \<open>
  Expression nodes. Every node carries its type; operator and cast nodes carry an optional
  folded value. A \<open>Var\<close> stands for the variable it refers to, with that variable's type
  and value. Real constants keep no model of their double.
\<close>

datatype expr =
    ConstantInteger "64 word" ttype
  | ConstantReal ttype
  | ConstantComplex expr expr ttype
  | ConstantLogical bool ttype
  | ConstantString string ttype
  | ConstantArray "expr list" ttype
  | Var string ttype "expr option"
  | ArrayRef string ttype
  | DerivedRef expr string ttype
  | FunctionCall string "expr list" ttype
  | ImplicitCast expr cast_kindType ttype "expr option"
  | BinOp expr binopType expr ttype "expr option"
  | Compare expr cmpopType expr ttype "expr option"
  | BoolOp expr boolopType expr ttype "expr option"

text \<open>
  Modelled from the spec: \<open>ASRUtils::expr_type\<close> and \<open>ASRUtils::expr_value\<close>
  (\<open>asr_utils.h\<close> is not part of the sources). Every expression node has a type and an
  optional folded constant value; a constant is its own value.
\<close>

fun expr_type :: "expr \<Rightarrow> ttype" where
  "expr_type (ConstantInteger n t) = t"
| "expr_type (ConstantReal t) = t"
| "expr_type (ConstantComplex re im t) = t"
| "expr_type (ConstantLogical b t) = t"
| "expr_type (ConstantString s t) = t"
| "expr_type (ConstantArray xs t) = t"
| "expr_type (Var v t val) = t"
| "expr_type (ArrayRef v t) = t"
| "expr_type (DerivedRef e m t) = t"
| "expr_type (FunctionCall f args t) = t"
| "expr_type (ImplicitCast e k t val) = t"
| "expr_type (BinOp l op r t val) = t"
| "expr_type (Compare l op r t val) = t"
| "expr_type (BoolOp l op r t val) = t"

fun expr_value :: "expr \<Rightarrow> expr option" where
  "expr_value (ConstantInteger n t) = Some (ConstantInteger n t)"
| "expr_value (ConstantReal t) = Some (ConstantReal t)"
| "expr_value (ConstantComplex re im t) = Some (ConstantComplex re im t)"
| "expr_value (ConstantLogical b t) = Some (ConstantLogical b t)"
| "expr_value (ConstantString s t) = Some (ConstantString s t)"
| "expr_value (ConstantArray xs t) = None"
| "expr_value (Var v t val) = val"
| "expr_value (ArrayRef v t) = None"
| "expr_value (DerivedRef e m t) = None"
| "expr_value (FunctionCall f args t) = None"
| "expr_value (ImplicitCast e k t val) = val"
| "expr_value (BinOp l op r t val) = val"
| "expr_value (Compare l op r t val) = val"
| "expr_value (BoolOp l op r t val) = val"

text \<open>
  The diagnostics. The code throws \<open>SemanticError\<close> with a message; each constructor
  stands for one group of throw sites, named by the kind the specification gives it:
  \<^item> \<open>IllegalCoercion\<close>: "Only ... can be assigned to ..." (\<open>set_converted_value\<close>);
  \<^item> \<open>CompareTypeMismatch\<close>: "Compare: only Integer or Real can be on the LHS and RHS
    ..." (\<open>visit_Compare\<close>);
  \<^item> \<open>InvalidAssignmentTarget\<close>: "The LHS of assignment can only be a variable or an
    array reference";
  \<^item> \<open>ArrayInitializerTarget\<close>: "ArrayInitalizer expressions can only be assigned array
    references";
  \<^item> \<open>NoGenericMatch\<close>: "Arguments do not match";
  \<^item> \<open>OnlySubroutineInGeneric\<close>: "Only Subroutine supported in generic procedure";
  \<^item> \<open>AlreadyDefined\<close>: "Symbol already declared", "Subroutine already defined",
    "Function already defined" and their like;
  \<^item> \<open>AssociateNotPointer\<close>: "Only a pointer variable can be associated with a
    non-pointer variable.";
  \<^item> \<open>SymbolNotFound\<close>: "... not declared", "The symbol ... not found in the module ...";
  \<^item> \<open>NotAModule\<close>: "The symbol ... must be a module";
  \<^item> \<open>ExternalNotSubroutine\<close>: "ExternalSymbol must point to a Subroutine";
  \<^item> \<open>UnsupportedConstruct\<close>: "Symbol type not supported", and the \<open>LFortranException\<close>s
    of \<open>visit_Use\<close>;
  \<^item> \<open>LoweringError\<close>: any error of a sub-expression's own lowering;
  \<^item> \<open>Abort\<close>: not a diagnostic. The run ends with no result: an \<open>ASR::down_cast\<close> to
    a variant the node does not have, a null pointer followed, a read past the rule
    table, or the hardware trap of an integer division.
\<close>

datatype error =
    IllegalCoercion
  | CompareTypeMismatch
  | InvalidAssignmentTarget
  | ArrayInitializerTarget
  | NoGenericMatch
  | OnlySubroutineInGeneric
  | AlreadyDefined
  | AssociateNotPointer
  | SymbolNotFound
  | NotAModule
  | ExternalNotSubroutine
  | UnsupportedConstruct
  | LoweringError
  | Abort

section \<open>ImplicitCastRules\<close>

text \<open>An entry of \<open>rule_map\<close>: \<open>default_case\<close> (-1), \<open>error_case\<close> (-2) or a cast kind.\<close>

datatype rule = default_case | error_case | cast cast_kindType

definition integer_to_real :: rule where "integer_to_real = cast IntegerToReal"
definition integer_to_integer :: rule where "integer_to_integer = cast IntegerToInteger"
definition real_to_integer :: rule where "real_to_integer = cast RealToInteger"
definition real_to_complex :: rule where "real_to_complex = cast RealToComplex"
definition integer_to_complex :: rule where "integer_to_complex = cast IntegerToComplex"
definition integer_to_logical :: rule where "integer_to_logical = cast IntegerToLogical"
definition complex_to_complex :: rule where "complex_to_complex = cast ComplexToComplex"
definition real_to_real :: rule where "real_to_real = cast RealToReal"

definition rule_map :: "rule list list" where
  "rule_map = [
     [integer_to_integer, integer_to_real, integer_to_complex, error_case, integer_to_logical, error_case,
      integer_to_integer, integer_to_real, integer_to_complex, error_case, integer_to_logical, error_case],
     [real_to_integer, real_to_real, real_to_complex, default_case, default_case, default_case,
      real_to_integer, real_to_real, real_to_complex, default_case, default_case, default_case],
     [default_case, default_case, complex_to_complex, default_case, default_case, default_case,
      default_case, default_case, complex_to_complex, default_case, default_case, default_case],
     [default_case, default_case, default_case, default_case, default_case, default_case,
      default_case, default_case, default_case, default_case, default_case, default_case],
     [default_case, default_case, default_case, default_case, default_case, default_case,
      default_case, default_case, default_case, default_case, default_case, default_case],
     [default_case, default_case, default_case, default_case, default_case, default_case,
      default_case, default_case, default_case, default_case, default_case, default_case]]"

definition type_priority :: "int list" where
  "type_priority = [4, 5, 6, -1, -1, -1]"

text \<open>
  The read \<open>rule_map[r][c]\<close>. The table is one block of 6 times 12 entries, row after
  row, and the code checks no index: a column past the end of a row (the tag \<open>Class\<close>)
  reads on into the next row, as the block is laid out, and a position past the block has
  no defined result.
\<close>

definition rule_map_at :: "nat \<Rightarrow> nat \<Rightarrow> rule option" where
  "rule_map_at r c =
     (let k = r * num_types + c
      in if k < length (concat rule_map) then Some (concat rule_map ! k) else None)"

text \<open>
  \<open>set_converted_value\<close>: the conversion candidate goes in and comes out (the code
  overwrites \<open>*convert_can\<close>); the throw is \<open>Inl\<close>.
\<close>

definition set_converted_value :: "expr \<Rightarrow> ttype \<Rightarrow> ttype \<Rightarrow> error + expr" where
  "set_converted_value convert_can source_type dest_type =
     (let same = (type_tag source_type = type_tag dest_type
                    \<or> is_same_type_pointer source_type dest_type);
          swap = (same \<and> is_pointer source_type \<and> \<not> is_pointer dest_type);
          source_type' = (if swap then dest_type else source_type);
          dest_type' = (if swap then source_type else dest_type)
      in if same \<and> extract_kind_from_ttype_t source_type' = extract_kind_from_ttype_t dest_type'
         then Inr convert_can
         else (case rule_map_at (ttype_index (type_tag source_type') mod (num_types div 2))
                                (ttype_index (type_tag dest_type')) of
                 None \<Rightarrow> Inl Abort
               | Some error_case \<Rightarrow> Inl IllegalCoercion
               | Some default_case \<Rightarrow> Inr convert_can
               | Some (cast cast_kind) \<Rightarrow>
                   Inr (ImplicitCast convert_can cast_kind dest_type' None)))"

text \<open>
  \<open>find_conversion_candidate\<close>: which operand is the conversion candidate, and the source
  and destination types it sets.
\<close>

datatype operand = left | right

definition find_conversion_candidate :: "ttype \<Rightarrow> ttype \<Rightarrow> operand \<times> ttype \<times> ttype" where
  "find_conversion_candidate left_type right_type =
     (let left_type_p = type_priority ! (ttype_index (type_tag left_type) mod (num_types div 2));
          right_type_p = type_priority ! (ttype_index (type_tag right_type) mod (num_types div 2))
      in if left_type_p \<ge> right_type_p
         then (right, right_type, left_type)
         else (left, left_type, right_type))"

text \<open>
  The priority of a type family in the specification's words: Integer 4, Real 5, Complex 6,
  none (-1) for Character, Logical and Derived; a pointer variant shares its plain
  counterpart's. The specification gives \<open>Class\<close> no priority; \<open>operand_priority\<close>
  adds what the lookup \<open>type_priority[type % 6]\<close> finds for it, Integer's entry.
\<close>

definition spec_priority :: "ttypeType \<Rightarrow> int" where
  "spec_priority t =
     (case base_family t of
        Integer \<Rightarrow> 4 | Real \<Rightarrow> 5 | Complex \<Rightarrow> 6 | _ \<Rightarrow> -1)"

definition operand_priority :: "ttypeType \<Rightarrow> int" where
  "operand_priority t = (if t = Class then 4 else spec_priority t)"

text \<open>
  The rule table in the specification's words: Integer casts to Integer, Real, Complex and
  Logical and is an error towards Character and Derived; Real casts to Integer, Real and
  Complex; Complex casts to Complex; everything else is the default (no cast). Families
  decide, so a pointer variant behaves as its plain counterpart. The rule is about the
  twelve types the table lists.
\<close>

definition spec_rule :: "ttypeType \<Rightarrow> ttypeType \<Rightarrow> rule" where
  "spec_rule src dst =
     (case base_family src of
        Integer \<Rightarrow> (case base_family dst of
            Integer \<Rightarrow> cast IntegerToInteger
          | Real \<Rightarrow> cast IntegerToReal
          | Complex \<Rightarrow> cast IntegerToComplex
          | Logical \<Rightarrow> cast IntegerToLogical
          | _ \<Rightarrow> error_case)
      | Real \<Rightarrow> (case base_family dst of
            Integer \<Rightarrow> cast RealToInteger
          | Real \<Rightarrow> cast RealToReal
          | Complex \<Rightarrow> cast RealToComplex
          | _ \<Rightarrow> default_case)
      | Complex \<Rightarrow> (case base_family dst of
            Complex \<Rightarrow> cast ComplexToComplex
          | _ \<Rightarrow> default_case)
      | _ \<Rightarrow> default_case)"

text \<open>
  The type an inserted \<open>ImplicitCast\<close> node carries: the destination type, or the source
  type when \<open>set_converted_value\<close> has swapped the two (a pointer source and a plain
  destination of one family).
\<close>

definition cast_type :: "ttype \<Rightarrow> ttype \<Rightarrow> ttype" where
  "cast_type s d =
     (if base_family (type_tag s) = base_family (type_tag d) \<and> is_pointer s \<and> \<not> is_pointer d
      then s else d)"

section \<open>CommonVisitorMethods\<close>

text \<open>
  The arithmetic of the folding is the one of \<open>int64_t\<close>. Signed overflow and a zero
  divisor have no defined result in C++; the model follows the two's-complement machine:
  \<open>+\<close>, \<open>-\<close> and \<open>*\<close> wrap around, and the division, which truncates towards zero,
  traps on a zero divisor and on the one quotient that does not fit. The power is
  \<open>std::pow\<close> on doubles, converted back to \<open>int64_t\<close>: the C++ library's, taken as the
  parameter \<open>std_pow\<close>.
\<close>

definition int64_min :: "64 word" where
  "int64_min = word_of_int (- (2 ^ 63))"

definition fold_BinOp ::
  "(64 word \<Rightarrow> 64 word \<Rightarrow> 64 word) \<Rightarrow> binopType \<Rightarrow> 64 word \<Rightarrow> 64 word \<Rightarrow> 64 word option" where
  "fold_BinOp std_pow op left_value right_value =
     (case op of
        Add \<Rightarrow> Some (left_value + right_value)
      | Sub \<Rightarrow> Some (left_value - right_value)
      | Mul \<Rightarrow> Some (left_value * right_value)
      | Div \<Rightarrow> (if right_value = 0 \<or> (left_value = int64_min \<and> right_value = - 1)
                then None
                else Some (word_of_int (sint left_value sdiv sint right_value)))
      | Pow \<Rightarrow> Some (std_pow left_value right_value))"

text \<open>
  The three operator visitors take the two lowered operands. The one
  \<open>find_conversion_candidate\<close> names goes through \<open>set_converted_value\<close> and is written
  back in its place (the code passes its address). The \<open>LFORTRAN_ASSERT\<close>s of the
  visitors, which a release build compiles out, are not part of the model.
\<close>

definition convert_operands :: "expr \<Rightarrow> expr \<Rightarrow> error + (expr \<times> expr \<times> ttype)" where
  "convert_operands left0 right0 =
     (case find_conversion_candidate (expr_type left0) (expr_type right0) of
        (conversion_cand, source_type, dest_type) \<Rightarrow>
          (case set_converted_value (case conversion_cand of left \<Rightarrow> left0 | right \<Rightarrow> right0)
                  source_type dest_type of
             Inl e \<Rightarrow> Inl e
           | Inr c \<Rightarrow>
               Inr (case conversion_cand of
                      left \<Rightarrow> (c, right0, dest_type)
                    | right \<Rightarrow> (left0, c, dest_type))))"

definition visit_BinOp ::
  "(64 word \<Rightarrow> 64 word \<Rightarrow> 64 word) \<Rightarrow> binopType \<Rightarrow> expr \<Rightarrow> expr \<Rightarrow> error + expr" where
  "visit_BinOp std_pow op left0 right0 =
     (case convert_operands left0 right0 of
        Inl e \<Rightarrow> Inl e
      | Inr (l, r, dest_type) \<Rightarrow>
          (case (expr_value l, expr_value r) of
             (Some (ConstantInteger left_value lt), Some (ConstantInteger right_value rt)) \<Rightarrow>
               (if type_tag dest_type = Integer
                then (case fold_BinOp std_pow op left_value right_value of
                        None \<Rightarrow> Inl Abort
                      | Some result \<Rightarrow>
                          Inr (BinOp l op r dest_type (Some (ConstantInteger result dest_type))))
                else Inr (BinOp l op r dest_type None))
           | _ \<Rightarrow> Inr (BinOp l op r dest_type None)))"

definition visit_Compare :: "cmpopType \<Rightarrow> expr \<Rightarrow> expr \<Rightarrow> error + expr" where
  "visit_Compare op left0 right0 =
     (let left_type = expr_type left0; right_type = expr_type right0
      in if (type_tag left_type \<noteq> Real \<and> type_tag left_type \<noteq> Integer) \<and>
            (type_tag right_type \<noteq> Real \<and> type_tag right_type \<noteq> Integer) \<and>
            ((type_tag left_type \<noteq> Complex \<or> type_tag right_type \<noteq> Complex) \<and>
             op \<noteq> Eq \<and> op \<noteq> NotEq)
         then Inl CompareTypeMismatch
         else (case convert_operands left0 right0 of
                 Inl e \<Rightarrow> Inl e
               | Inr (l, r, dest_type) \<Rightarrow>
                   Inr (Compare l op r \<lparr>type_tag = Logical, m_kind = 4, n_dims = 0\<rparr> None)))"

text \<open>
  \<open>visit_BoolOp\<close>, for the four operators its switch names (what else the parser's
  enumeration may hold is declared in \<open>ast.h\<close>).
\<close>

definition visit_BoolOp :: "boolopType \<Rightarrow> expr \<Rightarrow> expr \<Rightarrow> error + expr" where
  "visit_BoolOp op left0 right0 =
     (case convert_operands left0 right0 of
        Inl e \<Rightarrow> Inl e
      | Inr (l, r, dest_type) \<Rightarrow> Inr (BoolOp l op r dest_type None))"

section \<open>Symbols and scopes\<close>

datatype abiType = Source | Interactive | Intrinsic

datatype accessType = Public | Private

text \<open>
  The symbols, with the fields the modelled code reads: names, a procedure's formal
  arguments (\<open>Var\<close> expressions) and ABI, a generic's procedures, a module's scope and
  dependency list, and what an \<open>ExternalSymbol\<close> forwards to (\<open>m_name\<close>, \<open>m_external\<close>,
  \<open>m_module_name\<close>, \<open>m_original_name\<close>, \<open>m_access\<close>). A \<open>SymbolTable\<close> is its
  \<open>scope\<close> (a \<open>std::map\<close>, here the association list of its items in iteration order)
  and its \<open>parent\<close>.
\<close>

datatype symbol =
    Program string
  | Module string SymbolTable "string list"
  | Subroutine string "expr list" abiType
  | Function string "expr list" abiType
  | GenericProcedure string "symbol list"
  | DerivedType string
  | Variable string ttype
  | ClassProcedure string string
  | ExternalSymbol string symbol string string accessType
and SymbolTable =
    SymbolTable "(string \<times> symbol) list" "SymbolTable option"

fun scope :: "SymbolTable \<Rightarrow> (string \<times> symbol) list" where
  "scope (SymbolTable sc par) = sc"

fun parent :: "SymbolTable \<Rightarrow> SymbolTable option" where
  "parent (SymbolTable sc par) = par"

text \<open>
  Modelled from the spec: \<open>SymbolTable::resolve_symbol\<close> and \<open>ASRUtils::symbol_name\<close>
  (declared outside the sources). \<open>resolve_symbol\<close> searches the chain of scopes up to
  the root and gives the innermost binding.
\<close>

fun resolve_symbol :: "SymbolTable \<Rightarrow> string \<Rightarrow> symbol option" where
  "resolve_symbol (SymbolTable sc par) name =
     (case map_of sc name of
        Some s \<Rightarrow> Some s
      | None \<Rightarrow> (case par of None \<Rightarrow> None | Some p \<Rightarrow> resolve_symbol p name))"

fun symbol_name :: "symbol \<Rightarrow> string" where
  "symbol_name (Program n) = n"
| "symbol_name (Module n st deps) = n"
| "symbol_name (Subroutine n args abi) = n"
| "symbol_name (Function n args abi) = n"
| "symbol_name (GenericProcedure n procs) = n"
| "symbol_name (DerivedType n) = n"
| "symbol_name (Variable n t) = n"
| "symbol_name (ClassProcedure n p) = n"
| "symbol_name (ExternalSymbol n ext mn orig acc) = n"

text \<open>\<open>scope.find(name) != scope.end()\<close> and \<open>scope[name] = s\<close>.\<close>

definition scope_defines :: "SymbolTable \<Rightarrow> string \<Rightarrow> bool" where
  "scope_defines st name = (map_of (scope st) name \<noteq> None)"

definition scope_insert :: "string \<Rightarrow> symbol \<Rightarrow> SymbolTable \<Rightarrow> SymbolTable" where
  "scope_insert name s st = SymbolTable (AList.update name s (scope st)) (parent st)"

fun is_ExternalSymbol :: "symbol \<Rightarrow> bool" where
  "is_ExternalSymbol (ExternalSymbol n ext mn orig acc) = True"
| "is_ExternalSymbol _ = False"

text \<open>
  The invariant on external symbols: an \<open>ExternalSymbol\<close> does not forward to another
  one. A scope has it when each of its symbols has, a symbol table when each scope of
  its chain has.
\<close>

fun no_chain :: "symbol \<Rightarrow> bool" where
  "no_chain (ExternalSymbol n ext mn orig acc) = (\<not> is_ExternalSymbol ext)"
| "no_chain _ = True"

definition scope_no_chain :: "(string \<times> symbol) list \<Rightarrow> bool" where
  "scope_no_chain sc = list_all (\<lambda>item. no_chain (snd item)) sc"

fun symtab_no_chain :: "SymbolTable \<Rightarrow> bool" where
  "symtab_no_chain (SymbolTable sc par) =
     (scope_no_chain sc \<and> (case par of None \<Rightarrow> True | Some p \<Rightarrow> symtab_no_chain p))"

section \<open>SymbolTableVisitor\<close>

text \<open>
  The visitor's state, as far as the modelled methods use it. Modelled from the spec:
  \<open>present\<close> (declared outside the sources) tells whether a name is in the dependency
  list already.
\<close>

record SymbolTableVisitor =
  current_scope :: SymbolTable
  current_module_dependencies :: "string list"
  dflt_access :: accessType

definition present :: "string list \<Rightarrow> string \<Rightarrow> bool" where
  "present v name = (name \<in> set v)"

text \<open>
  \<open>visit_Declaration\<close>, for one declared name of a typed declaration: the check of
  the name against the current scope, then the variable (whose construction from the
  attributes is the argument \<open>v\<close>, with its own errors) stored under the name.
\<close>

definition visit_Declaration :: "SymbolTable \<Rightarrow> string \<Rightarrow> error + symbol \<Rightarrow> error + SymbolTable" where
  "visit_Declaration cs sym_name v =
     (if scope_defines cs sym_name \<and> parent cs \<noteq> None
      then Inl AlreadyDefined
      else (case v of
              Inl e \<Rightarrow> Inl e
            | Inr var \<Rightarrow> Inr (scope_insert sym_name var cs)))"

text \<open>
  The end of \<open>visit_Subroutine\<close> and of \<open>visit_Function\<close>: the new symbol \<open>asr\<close>
  goes into the parent scope under its name.
\<close>

definition visit_Subroutine :: "SymbolTable \<Rightarrow> string \<Rightarrow> symbol \<Rightarrow> error + SymbolTable" where
  "visit_Subroutine parent_scope sym_name asr =
     (case map_of (scope parent_scope) sym_name of
        None \<Rightarrow> Inr (scope_insert sym_name asr parent_scope)
      | Some f1 \<Rightarrow>
          (case f1 of
             Subroutine n args m_abi \<Rightarrow>
               (if m_abi = Interactive
                then Inr (scope_insert sym_name asr parent_scope)
                else Inl AlreadyDefined)
           | _ \<Rightarrow> Inl Abort))"

definition visit_Function :: "SymbolTable \<Rightarrow> string \<Rightarrow> symbol \<Rightarrow> error + SymbolTable" where
  "visit_Function parent_scope sym_name asr =
     (case map_of (scope parent_scope) sym_name of
        None \<Rightarrow> Inr (scope_insert sym_name asr parent_scope)
      | Some f1 \<Rightarrow>
          (case f1 of
             Function n args m_abi \<Rightarrow>
               (if m_abi = Interactive
                then Inr (scope_insert sym_name asr parent_scope)
                else Inl AlreadyDefined)
           | _ \<Rightarrow> Inl Abort))"

text \<open>A \<open>use\<close> statement: the module's name and the symbols of its only-list.\<close>

datatype UseSymbol = UseSymbol (m_sym: string) (m_rename: "string option")

record Use =
  m_module :: string
  m_symbols :: "UseSymbol list"

text \<open>\<open>visit_Use\<close> without an only-list: the loop over the items of the module's scope.\<close>

fun visit_Use_all ::
  "string \<Rightarrow> accessType \<Rightarrow> (string \<times> symbol) list \<Rightarrow> SymbolTable \<Rightarrow> error + SymbolTable" where
  "visit_Use_all m_name acc [] cs = Inr cs"
| "visit_Use_all m_name acc (item # items) cs =
     (case snd item of
        Subroutine n args abi \<Rightarrow>
          visit_Use_all m_name acc items
            (scope_insert n (ExternalSymbol n (snd item) m_name n acc) cs)
      | Function n args abi \<Rightarrow>
          visit_Use_all m_name acc items
            (scope_insert n (ExternalSymbol n (snd item) m_name n acc) cs)
      | GenericProcedure n procs \<Rightarrow>
          visit_Use_all m_name acc items
            (scope_insert n (ExternalSymbol n (snd item) m_name n acc) cs)
      | Variable n t \<Rightarrow>
          visit_Use_all m_name acc items
            (scope_insert n (ExternalSymbol n (snd item) m_name n acc) cs)
      | _ \<Rightarrow> Inl UnsupportedConstruct)"

text \<open>
  \<open>visit_Use\<close> with an only-list, for one listed symbol once it is resolved to \<open>t\<close> in
  the module: the new \<open>ExternalSymbol\<close> stored under the local name.
\<close>

definition visit_Use_symbol ::
  "string \<Rightarrow> accessType \<Rightarrow> string \<Rightarrow> symbol \<Rightarrow> SymbolTable \<Rightarrow> error + SymbolTable" where
  "visit_Use_symbol m_name acc local_sym t cs =
     (case t of
        Subroutine n args abi \<Rightarrow>
          (if scope_defines cs local_sym then Inl AlreadyDefined
           else Inr (scope_insert local_sym (ExternalSymbol local_sym t m_name n acc) cs))
      | GenericProcedure n procs \<Rightarrow>
          (if scope_defines cs local_sym then Inl AlreadyDefined
           else Inr (scope_insert local_sym (ExternalSymbol local_sym t m_name n acc) cs))
      | ExternalSymbol es_name es_external es_module_name es_original_name es_access \<Rightarrow>
          (if scope_defines cs local_sym then Inl AlreadyDefined
           else Inr (scope_insert local_sym
                  (ExternalSymbol es_name es_external es_module_name es_original_name es_access) cs))
      | Function n args abi \<Rightarrow>
          (if scope_defines cs local_sym then Inl AlreadyDefined
           else Inr (scope_insert local_sym (ExternalSymbol local_sym t m_name n acc) cs))
      | Variable n ty \<Rightarrow>
          (if scope_defines cs local_sym then Inl AlreadyDefined
           else Inr (scope_insert local_sym (ExternalSymbol local_sym t m_name n acc) cs))
      | DerivedType n \<Rightarrow>
          (if scope_defines cs local_sym then Inl AlreadyDefined
           else Inr (scope_insert local_sym (ExternalSymbol local_sym t m_name n acc) cs))
      | _ \<Rightarrow> Inl UnsupportedConstruct)"

fun visit_Use_only ::
  "string \<Rightarrow> SymbolTable \<Rightarrow> accessType \<Rightarrow> UseSymbol list \<Rightarrow> SymbolTable \<Rightarrow> error + SymbolTable" where
  "visit_Use_only m_name m_symtab acc [] cs = Inr cs"
| "visit_Use_only m_name m_symtab acc (u # us) cs =
     (let remote_sym = m_sym u;
          local_sym = (case m_rename u of Some r \<Rightarrow> r | None \<Rightarrow> remote_sym)
      in case resolve_symbol m_symtab remote_sym of
           None \<Rightarrow> Inl SymbolNotFound
         | Some t \<Rightarrow>
             (case visit_Use_symbol m_name acc local_sym t cs of
                Inl e \<Rightarrow> Inl e
              | Inr cs' \<Rightarrow> visit_Use_only m_name m_symtab acc us cs'))"

text \<open>
  \<open>visit_Use\<close>. The module loader is a collaborator outside the sources: the parameter
  \<open>load_module\<close> gives, for a module name and the intrinsic flag, the symbol it
  materializes or its error. \<open>used_module\<close> is the symbol the statement's module name
  stands for: what the enclosing scopes resolve it to, or else what the loader gives.
\<close>

definition used_module ::
  "(string \<Rightarrow> bool \<Rightarrow> error + symbol) \<Rightarrow> SymbolTableVisitor \<Rightarrow> string \<Rightarrow> error + symbol" where
  "used_module load_module v msym =
     (case parent (current_scope v) of
        None \<Rightarrow> Inl Abort
      | Some p \<Rightarrow>
          (case resolve_symbol p msym of
             Some t \<Rightarrow> Inr t
           | None \<Rightarrow> load_module msym False))"

definition visit_Use ::
  "(string \<Rightarrow> bool \<Rightarrow> error + symbol) \<Rightarrow> SymbolTableVisitor \<Rightarrow> Use \<Rightarrow> error + SymbolTableVisitor" where
  "visit_Use load_module v x =
     (let msym = m_module x;
          deps = (if \<not> present (current_module_dependencies v) msym
                  then current_module_dependencies v @ [msym]
                  else current_module_dependencies v)
      in case used_module load_module v msym of
           Inl e \<Rightarrow> Inl e
         | Inr t \<Rightarrow>
             (case t of
                Module m_name m_symtab m_deps \<Rightarrow>
                  (case (if m_symbols x = []
                         then visit_Use_all m_name (dflt_access v) (scope m_symtab) (current_scope v)
                         else visit_Use_only m_name m_symtab (dflt_access v) (m_symbols x)
                                (current_scope v)) of
                     Inl e \<Rightarrow> Inl e
                   | Inr cs \<Rightarrow>
                       Inr (v\<lparr>current_scope := cs, current_module_dependencies := deps\<rparr>))
              | _ \<Rightarrow> Inl NotAModule))"

text \<open>
  The start of \<open>visit_Module\<close> and of \<open>visit_Program\<close>: a new scope under the current
  one, the dependency list emptied (\<open>reserve\<close>), and the loop over the unit's \<open>use\<close>
  statements.
\<close>

fun visit_uses ::
  "(string \<Rightarrow> bool \<Rightarrow> error + symbol) \<Rightarrow> SymbolTableVisitor \<Rightarrow> Use list \<Rightarrow> error + SymbolTableVisitor" where
  "visit_uses load_module v [] = Inr v"
| "visit_uses load_module v (x # xs) =
     (case visit_Use load_module v x of
        Inl e \<Rightarrow> Inl e
      | Inr v' \<Rightarrow> visit_uses load_module v' xs)"

definition visit_Module_uses ::
  "(string \<Rightarrow> bool \<Rightarrow> error + symbol) \<Rightarrow> SymbolTableVisitor \<Rightarrow> Use list \<Rightarrow> error + SymbolTableVisitor" where
  "visit_Module_uses load_module v m_use =
     visit_uses load_module
       (v\<lparr>current_scope := SymbolTable [] (Some (current_scope v)),
          current_module_dependencies := []\<rparr>) m_use"

text \<open>The table of intrinsic procedures and the modules that own them.\<close>

definition intrinsic_procedures :: "(string \<times> string) list" where
  "intrinsic_procedures = [
     (''kind'', ''lfortran_intrinsic_kind''),
     (''selected_int_kind'', ''lfortran_intrinsic_kind''),
     (''selected_real_kind'', ''lfortran_intrinsic_kind''),
     (''size'', ''lfortran_intrinsic_array''),
     (''lbound'', ''lfortran_intrinsic_array''),
     (''ubound'', ''lfortran_intrinsic_array''),
     (''min'', ''lfortran_intrinsic_array''),
     (''max'', ''lfortran_intrinsic_array''),
     (''allocated'', ''lfortran_intrinsic_array''),
     (''minval'', ''lfortran_intrinsic_array''),
     (''maxval'', ''lfortran_intrinsic_array''),
     (''real'', ''lfortran_intrinsic_array''),
     (''sum'', ''lfortran_intrinsic_array''),
     (''abs'', ''lfortran_intrinsic_array'')]"

text \<open>
  The on-demand load of an intrinsic, common to both visitors: the owning module is
  loaded with the intrinsic flag, the procedure is looked up in it and cast down to a
  function, and an \<open>ExternalSymbol\<close> for it goes into the current scope. The result is
  that symbol, the scope and the loaded module's name.
\<close>

definition load_intrinsic ::
  "(string \<Rightarrow> bool \<Rightarrow> error + symbol) \<Rightarrow> SymbolTable \<Rightarrow> string
     \<Rightarrow> error + (symbol \<times> SymbolTable \<times> string)" where
  "load_intrinsic load_module cs remote_sym =
     (case map_of intrinsic_procedures remote_sym of
        None \<Rightarrow> Inl SymbolNotFound
      | Some module_name \<Rightarrow>
          (case load_module module_name True of
             Inl e \<Rightarrow> Inl e
           | Inr m \<Rightarrow>
               (case m of
                  Module m_name m_symtab m_deps \<Rightarrow>
                    (case resolve_symbol m_symtab remote_sym of
                       None \<Rightarrow> Inl SymbolNotFound
                     | Some t \<Rightarrow>
                         (case t of
                            Function mfn_name args abi \<Rightarrow>
                              (let fn = ExternalSymbol mfn_name t m_name mfn_name Private
                               in Inr (fn, scope_insert mfn_name fn cs, m_name))
                          | _ \<Rightarrow> Inl Abort))
                | _ \<Rightarrow> Inl Abort)))"

text \<open>
  \<open>SymbolTableVisitor::visit_FuncCallOrArray\<close>, the part that resolves the name: the
  symbol it finds or loads, and the visitor's new state. \<open>remote_sym\<close> is the name in
  lower case.
\<close>

definition SymbolTableVisitor_visit_FuncCallOrArray ::
  "(string \<Rightarrow> bool \<Rightarrow> error + symbol) \<Rightarrow> SymbolTableVisitor \<Rightarrow> string \<Rightarrow> string
     \<Rightarrow> error + (symbol \<times> SymbolTableVisitor)" where
  "SymbolTableVisitor_visit_FuncCallOrArray load_module v var_name remote_sym =
     (case resolve_symbol (current_scope v) var_name of
        Some s \<Rightarrow> Inr (s, v)
      | None \<Rightarrow>
          (case load_intrinsic load_module (current_scope v) remote_sym of
             Inl e \<Rightarrow> Inl e
           | Inr (fn, cs, m_name) \<Rightarrow>
               Inr (fn, v\<lparr>current_scope := cs,
                         current_module_dependencies :=
                           (if \<not> present (current_module_dependencies v) m_name
                            then current_module_dependencies v @ [m_name]
                            else current_module_dependencies v)\<rparr>)))"

section \<open>BodyVisitor\<close>

text \<open>
  \<open>BodyVisitor::visit_FuncCallOrArray\<close>, the branch of a name that is not declared and
  is in the table of intrinsic procedures: the symbol, the current scope and the current
  module (when there is one) with its dependency list. Before it loads the module the
  code follows \<open>current_scope->parent->parent\<close>, so the current scope has a parent or
  the run ends; the scope it shifts to for the load is put back after it, and which
  scope the loader is handed is the loader's business.
\<close>

definition BodyVisitor_visit_FuncCallOrArray ::
  "(string \<Rightarrow> bool \<Rightarrow> error + symbol) \<Rightarrow> SymbolTable \<Rightarrow> symbol option \<Rightarrow> string
     \<Rightarrow> error + (symbol \<times> SymbolTable \<times> symbol option)" where
  "BodyVisitor_visit_FuncCallOrArray load_module cs current_module remote_sym =
     (case parent cs of
        None \<Rightarrow> Inl Abort
      | Some p \<Rightarrow>
          (case load_intrinsic load_module cs remote_sym of
             Inl e \<Rightarrow> Inl e
           | Inr (fn, cs', m_name) \<Rightarrow>
               Inr (fn, cs',
                    (case current_module of
                       Some (Module n st deps) \<Rightarrow>
                         Some (Module n st
                           (if \<not> present deps m_name then deps @ [m_name] else deps))
                     | other \<Rightarrow> other))))"

text \<open>
  Statements, and the node \<open>tmp\<close> a visit leaves behind: a statement or an expression.
\<close>

datatype stmt =
    Assignment expr expr
  | Associate expr expr
  | SubroutineCall "symbol option" "symbol option" "expr list"

datatype asr = stmt_node stmt | expr_node expr

fun is_Var :: "expr \<Rightarrow> bool" where
  "is_Var (Var v t val) = True"
| "is_Var _ = False"

fun is_ArrayRef :: "expr \<Rightarrow> bool" where
  "is_ArrayRef (ArrayRef v t) = True"
| "is_ArrayRef _ = False"

fun is_DerivedRef :: "expr \<Rightarrow> bool" where
  "is_DerivedRef (DerivedRef e m t) = True"
| "is_DerivedRef _ = False"

fun is_ConstantArray :: "expr \<Rightarrow> bool" where
  "is_ConstantArray (ConstantArray xs t) = True"
| "is_ConstantArray _ = False"

text \<open>
  \<open>visit_Assignment\<close>. The two arguments are what lowering the target and the value
  gives; the value is lowered only after the target has passed its check.
\<close>

definition visit_Assignment :: "error + expr \<Rightarrow> error + expr \<Rightarrow> error + stmt" where
  "visit_Assignment m_target m_value =
     (case m_target of
        Inl e \<Rightarrow> Inl e
      | Inr target \<Rightarrow>
          (if \<not> is_Var target \<and> \<not> is_ArrayRef target \<and> \<not> is_DerivedRef target
           then Inl InvalidAssignmentTarget
           else (case m_value of
                   Inl e \<Rightarrow> Inl e
                 | Inr val \<Rightarrow>
                     (if is_Var target \<and> \<not> is_array (expr_type target) \<and> is_ConstantArray val
                      then Inl ArrayInitializerTarget
                      else if is_Var target \<or> is_ArrayRef target
                      then (case set_converted_value val (expr_type val) (expr_type target) of
                              Inl e \<Rightarrow> Inl e
                            | Inr val' \<Rightarrow> Inr (Assignment target val'))
                      else Inr (Assignment target val)))))"

text \<open>
  \<open>visit_Associate\<close>. The result is the node \<open>tmp\<close> points to when the method
  returns: the method assigns it only when it builds the \<open>Associate\<close>, and the last one to
  set it before was the lowering of the value.
\<close>

definition visit_Associate :: "error + expr \<Rightarrow> error + expr \<Rightarrow> error + asr" where
  "visit_Associate m_target m_value =
     (case m_target of
        Inl e \<Rightarrow> Inl e
      | Inr target \<Rightarrow>
          (case m_value of
             Inl e \<Rightarrow> Inl e
           | Inr val \<Rightarrow>
               (let is_target_pointer = is_pointer (expr_type target);
                    is_value_pointer = is_pointer (expr_type val)
                in if \<not> (is_target_pointer \<and> \<not> is_value_pointer)
                   then Inl AssociateNotPointer
                   else if is_same_type_pointer (expr_type target) (expr_type val)
                   then Inr (stmt_node (Associate target val))
                   else Inr (expr_node val))))"

text \<open>Generic dispatch: \<open>types_equal\<close>, \<open>argument_types_match\<close>, \<open>select_generic_procedure\<close>.\<close>

definition types_equal :: "ttype \<Rightarrow> ttype \<Rightarrow> bool" where
  "types_equal a b = (type_tag a = type_tag b)"

definition argument_types_match :: "expr list \<Rightarrow> expr list \<Rightarrow> bool" where
  "argument_types_match args sub_args =
     (if length args = length sub_args
      then list_all (\<lambda>i. types_equal (expr_type (args ! i)) (expr_type (sub_args ! i)))
             [0 ..< length args]
      else False)"

fun select_from :: "nat \<Rightarrow> expr list \<Rightarrow> symbol list \<Rightarrow> error + nat" where
  "select_from i args [] = Inl NoGenericMatch"
| "select_from i args (p # ps) =
     (case p of
        Subroutine n sub_args abi \<Rightarrow>
          (if argument_types_match args sub_args then Inr i
           else select_from (Suc i) args ps)
      | _ \<Rightarrow> Inl OnlySubroutineInGeneric)"

definition select_generic_procedure :: "expr list \<Rightarrow> symbol list \<Rightarrow> error + nat" where
  "select_generic_procedure args m_procs = select_from 0 args m_procs"

fun is_Subroutine :: "symbol \<Rightarrow> bool" where
  "is_Subroutine (Subroutine n args abi) = True"
| "is_Subroutine _ = False"

text \<open>
  \<open>visit_SubroutineCall\<close>, from the resolved symbol \<open>original_sym\<close> (none when the name
  is not declared) and the lowered arguments: the call statement and the current scope,
  which gains an \<open>ExternalSymbol\<close> when the call goes through an external generic.
\<close>

definition visit_SubroutineCall ::
  "SymbolTable \<Rightarrow> symbol option \<Rightarrow> expr list \<Rightarrow> error + (stmt \<times> SymbolTable)" where
  "visit_SubroutineCall cs resolved args =
     (case resolved of
        None \<Rightarrow> Inl SymbolNotFound
      | Some original_sym \<Rightarrow>
          (case original_sym of
             Subroutine n sub_args abi \<Rightarrow>
               Inr (SubroutineCall (Some original_sym) None args, cs)
           | GenericProcedure n m_procs \<Rightarrow>
               (case select_generic_procedure args m_procs of
                  Inl e \<Rightarrow> Inl e
                | Inr idx \<Rightarrow>
                    Inr (SubroutineCall (Some (m_procs ! idx)) (Some original_sym) args, cs))
           | ClassProcedure n m_proc_name \<Rightarrow>
               Inr (SubroutineCall (resolve_symbol cs m_proc_name) (Some original_sym) args, cs)
           | ExternalSymbol p_name m_external p_module_name p_original_name p_access \<Rightarrow>
               (case m_external of
                  GenericProcedure g_name g_procs \<Rightarrow>
                    (case select_generic_procedure args g_procs of
                       Inl e \<Rightarrow> Inl e
                     | Inr idx \<Rightarrow>
                         (let final_sym = g_procs ! idx in
                          if \<not> is_Subroutine final_sym then Inl ExternalNotSubroutine
                          else
                            (let local_sym = p_name @ ''@'' @ symbol_name final_sym in
                             case map_of (scope cs) local_sym of
                               None \<Rightarrow>
                                 (let sub = ExternalSymbol local_sym final_sym p_module_name
                                              (symbol_name final_sym) Private
                                  in Inr (SubroutineCall (Some sub) (Some original_sym) args,
                                          scope_insert local_sym sub cs))
                             | Some cached \<Rightarrow>
                                 Inr (SubroutineCall (Some cached) (Some original_sym) args, cs))))
                | _ \<Rightarrow>
                    (if \<not> is_Subroutine m_external then Inl ExternalNotSubroutine
                     else Inr (SubroutineCall (Some original_sym) None args, cs)))
           | _ \<Rightarrow> Inl UnsupportedConstruct))"

section \<open>Example types and nodes\<close>

definition int4 :: ttype where
  "int4 = \<lparr>type_tag = Integer, m_kind = 4, n_dims = 0\<rparr>"

definition int8 :: ttype where
  "int8 = \<lparr>type_tag = Integer, m_kind = 8, n_dims = 0\<rparr>"

definition real4 :: ttype where
  "real4 = \<lparr>type_tag = Real, m_kind = 4, n_dims = 0\<rparr>"

definition char4 :: ttype where
  "char4 = \<lparr>type_tag = Character, m_kind = 4, n_dims = 0\<rparr>"

definition real4_pointer :: ttype where
  "real4_pointer = \<lparr>type_tag = RealPointer, m_kind = 4, n_dims = 0\<rparr>"

definition logical4 :: ttype where
  "logical4 = \<lparr>type_tag = Logical, m_kind = 4, n_dims = 0\<rparr>"


definition class0 :: ttype where
  "class0 = \<lparr>type_tag = Class, m_kind = 0, n_dims = 0\<rparr>"

text \<open>The values of \<open>int64_t\<close>.\<close>

definition int64_range :: "int \<Rightarrow> bool" where
  "int64_range k = (- (2 ^ 63) \<le> k \<and> k < 2 ^ 63)"

text \<open>An instance of \<open>std_pow\<close> for the examples: the exact power, wrapped.\<close>

definition exact_pow :: "64 word \<Rightarrow> 64 word \<Rightarrow> 64 word" where
  "exact_pow a b = word_of_int (sint a ^ nat (sint b))"

text \<open>A generic of two subroutines, one with a real and one with an integer argument.\<close>

definition generic_example :: "symbol list" where
  "generic_example = [Subroutine ''s_real'' [Var ''a'' real4 None] Source,
                      Subroutine ''s_int'' [Var ''a'' int4 None] Source]"

text \<open>Root scopes that hold a subroutine \<open>s\<close>, and an inner scope that holds \<open>x\<close>.\<close>

definition root_with_s :: SymbolTable where
  "root_with_s = SymbolTable [(''s'', Subroutine ''s'' [] Source)] None"

definition root_with_interactive_s :: SymbolTable where
  "root_with_interactive_s = SymbolTable [(''s'', Subroutine ''s'' [] Interactive)] None"

definition inner_with_x :: SymbolTable where
  "inner_with_x = SymbolTable [(''x'', Variable ''x'' int4)] (Some (SymbolTable [] None))"

text \<open>
  A program that uses module \<open>b\<close>, which has itself imported the subroutine \<open>f\<close> of a
  module \<open>a\<close>: first \<open>use b, only: f\<close>, then \<open>use b, only: g => f\<close>. The loader has
  nothing to add.
\<close>

definition no_loader :: "string \<Rightarrow> bool \<Rightarrow> error + symbol" where
  "no_loader name intrinsic = Inl SymbolNotFound"

definition module_b_symtab :: SymbolTable where
  "module_b_symtab =
     SymbolTable [(''f'', ExternalSymbol ''f'' (Subroutine ''f'' [] Source) ''a'' ''f'' Public)]
       (Some (SymbolTable [] None))"

definition global_with_b :: SymbolTable where
  "global_with_b = SymbolTable [(''b'', Module ''b'' module_b_symtab [''a''])] None"

definition program_visitor :: SymbolTableVisitor where
  "program_visitor =
     \<lparr>current_scope = SymbolTable [] (Some global_with_b),
      current_module_dependencies = [],
      dflt_access = Public\<rparr>"

definition use_b_only_f :: Use where
  "use_b_only_f = \<lparr>m_module = ''b'', m_symbols = [UseSymbol ''f'' None]\<rparr>"

definition program_visitor_after :: SymbolTableVisitor where
  "program_visitor_after =
     \<lparr>current_scope =
        SymbolTable [(''f'', ExternalSymbol ''f'' (Subroutine ''f'' [] Source) ''a'' ''f'' Public)]
          (Some global_with_b),
      current_module_dependencies = [''b''],
      dflt_access = Public\<rparr>"

definition use_b_f_as_g :: Use where
  "use_b_f_as_g = \<lparr>m_module = ''b'', m_symbols = [UseSymbol ''f'' (Some ''g'')]\<rparr>"

definition program_visitor_final :: SymbolTableVisitor where
  "program_visitor_final =
     \<lparr>current_scope =
        SymbolTable [(''f'', ExternalSymbol ''f'' (Subroutine ''f'' [] Source) ''a'' ''f'' Public),
                     (''g'', ExternalSymbol ''f'' (Subroutine ''f'' [] Source) ''a'' ''f'' Public)]
          (Some global_with_b),
      current_module_dependencies = [''b''],
      dflt_access = Public\<rparr>"

section \<open>Facts about the tables\<close>

lemma type_priority_spec:
  "type_priority ! (ttype_index t mod (num_types div 2)) = operand_priority t"
  by (cases t)
    (simp_all add: type_priority_def num_types_def spec_priority_def operand_priority_def)

lemma operand_priority_listed:
  "t \<noteq> Class \<Longrightarrow> operand_priority t = spec_priority t"
  by (simp add: operand_priority_def)

lemma operand_priority_family:
  "base_family a = base_family b \<Longrightarrow> operand_priority a = operand_priority b"
  by (cases a; cases b; simp add: operand_priority_def spec_priority_def)

lemma same_family_iff:
  "(type_tag s = type_tag d \<or> is_same_type_pointer s d)
     = (base_family (type_tag s) = base_family (type_tag d))"
  by (cases "type_tag s"; cases "type_tag d"; simp add: is_same_type_pointer_def is_pointer_def)

lemmas rule_names = integer_to_real_def integer_to_integer_def real_to_integer_def
  real_to_complex_def integer_to_complex_def integer_to_logical_def complex_to_complex_def
  real_to_real_def

lemma rule_map_spec:
  "a \<noteq> Class \<Longrightarrow> b \<noteq> Class \<Longrightarrow>
     rule_map_at (ttype_index a mod (num_types div 2)) (ttype_index b) = Some (spec_rule a b)"
  by (cases a; cases b;
      simp add: rule_map_at_def rule_map_def num_types_def spec_rule_def rule_names)

lemma spec_rule_swap:
  "base_family a = base_family b \<Longrightarrow> spec_rule b a = spec_rule a b"
  by (cases a; cases b; simp add: spec_rule_def)

lemma set_converted_value_spec:
  assumes "type_tag s \<noteq> Class" and "type_tag d \<noteq> Class"
  shows "set_converted_value e s d =
     (if base_family (type_tag s) = base_family (type_tag d) \<and> m_kind s = m_kind d
      then Inr e
      else (case spec_rule (type_tag s) (type_tag d) of
              error_case \<Rightarrow> Inl IllegalCoercion
            | default_case \<Rightarrow> Inr e
            | cast k \<Rightarrow> Inr (ImplicitCast e k (cast_type s d) None)))"
  unfolding set_converted_value_def Let_def same_family_iff
    extract_kind_from_ttype_t_def cast_type_def
  using assms spec_rule_swap [of "type_tag s" "type_tag d"]
  by (auto simp: rule_map_spec eq_commute split: rule.splits)

lemma find_conversion_candidate_spec:
  "find_conversion_candidate left_type right_type =
     (if operand_priority (type_tag left_type) < operand_priority (type_tag right_type)
      then (left, left_type, right_type)
      else (right, right_type, left_type))"
  by (simp add: find_conversion_candidate_def type_priority_spec Let_def)

text \<open>
  The priority rule never pairs a source with a destination that the table refuses: the
  entry read for a source of no higher priority than the destination is not the error.
\<close>

lemma no_error_by_priority:
  "operand_priority s \<le> operand_priority d \<Longrightarrow>
     rule_map_at (ttype_index s mod (num_types div 2)) (ttype_index d) \<noteq> Some error_case"
  by (cases s; cases d;
      simp add: rule_map_at_def rule_map_def num_types_def rule_names
        operand_priority_def spec_priority_def)

lemma set_converted_value_no_IllegalCoercion:
  assumes "operand_priority (type_tag s) \<le> operand_priority (type_tag d)"
  shows "set_converted_value e s d \<noteq> Inl IllegalCoercion"
proof -
  define sw where "sw = (base_family (type_tag s) = base_family (type_tag d)
      \<and> is_pointer s \<and> \<not> is_pointer d)"
  define s' where "s' = (if sw then d else s)"
  define d' where "d' = (if sw then s else d)"
  have eq: "set_converted_value e s d =
     (if base_family (type_tag s) = base_family (type_tag d)
         \<and> extract_kind_from_ttype_t s' = extract_kind_from_ttype_t d'
      then Inr e
      else (case rule_map_at (ttype_index (type_tag s') mod (num_types div 2))
                             (ttype_index (type_tag d')) of
              None \<Rightarrow> Inl Abort
            | Some error_case \<Rightarrow> Inl IllegalCoercion
            | Some default_case \<Rightarrow> Inr e
            | Some (cast cast_kind) \<Rightarrow> Inr (ImplicitCast e cast_kind d' None)))"
    unfolding set_converted_value_def Let_def same_family_iff sw_def s'_def d'_def
    by (rule refl)
  have "operand_priority (type_tag s') \<le> operand_priority (type_tag d')"
  proof (cases sw)
    case True
    then have "base_family (type_tag d) = base_family (type_tag s)"
      unfolding sw_def by simp
    then have "operand_priority (type_tag d) = operand_priority (type_tag s)"
      by (rule operand_priority_family)
    with True show ?thesis by (simp add: s'_def d'_def)
  next
    case False
    with assms show ?thesis by (simp add: s'_def d'_def)
  qed
  from no_error_by_priority [OF this]
  have "rule_map_at (ttype_index (type_tag s') mod (num_types div 2))
      (ttype_index (type_tag d')) \<noteq> Some error_case" .
  then show ?thesis
    unfolding eq by (simp split: option.splits rule.splits)
qed

lemma set_converted_value_errors:
  "set_converted_value e s d = Inl err \<Longrightarrow> err = IllegalCoercion \<or> err = Abort"
  by (auto simp: set_converted_value_def Let_def split: if_splits option.splits rule.splits)

lemma convert_operands_errors:
  assumes "convert_operands left0 right0 = Inl err"
  shows "err = Abort"
proof (cases "operand_priority (type_tag (expr_type left0))
                < operand_priority (type_tag (expr_type right0))")
  case True
  with assms have e: "set_converted_value left0 (expr_type left0) (expr_type right0) = Inl err"
    by (simp add: convert_operands_def find_conversion_candidate_spec split: sum.splits)
  from True have "set_converted_value left0 (expr_type left0) (expr_type right0)
      \<noteq> Inl IllegalCoercion"
    by (intro set_converted_value_no_IllegalCoercion) simp
  with e set_converted_value_errors [OF e] show ?thesis by auto
next
  case False
  with assms have e: "set_converted_value right0 (expr_type right0) (expr_type left0) = Inl err"
    by (simp add: convert_operands_def find_conversion_candidate_spec split: sum.splits)
  from False have "set_converted_value right0 (expr_type right0) (expr_type left0)
      \<noteq> Inl IllegalCoercion"
    by (intro set_converted_value_no_IllegalCoercion) simp
  with e set_converted_value_errors [OF e] show ?thesis by auto
qed

lemma spec_rule_no_error:
  "a \<noteq> Class \<Longrightarrow> b \<noteq> Class \<Longrightarrow> spec_priority a \<le> spec_priority b \<Longrightarrow>
     spec_rule a b \<noteq> error_case"
  by (cases a; cases b; simp add: spec_rule_def spec_priority_def)

lemma convert_operands_total:
  assumes "type_tag (expr_type left0) \<noteq> Class" and "type_tag (expr_type right0) \<noteq> Class"
  shows "\<exists>l r. convert_operands left0 right0 = Inr (l, r,
      (if spec_priority (type_tag (expr_type left0)) < spec_priority (type_tag (expr_type right0))
       then expr_type right0 else expr_type left0))"
proof (cases "spec_priority (type_tag (expr_type left0)) < spec_priority (type_tag (expr_type right0))")
  case True
  with assms have "spec_rule (type_tag (expr_type left0)) (type_tag (expr_type right0))
      \<noteq> error_case"
    by (intro spec_rule_no_error) simp_all
  with True assms show ?thesis
    by (cases "spec_rule (type_tag (expr_type left0)) (type_tag (expr_type right0))")
      (simp_all add: convert_operands_def find_conversion_candidate_spec
        set_converted_value_spec operand_priority_listed)
next
  case False
  with assms have "spec_rule (type_tag (expr_type right0)) (type_tag (expr_type left0))
      \<noteq> error_case"
    by (intro spec_rule_no_error) simp_all
  with False assms show ?thesis
    by (cases "spec_rule (type_tag (expr_type right0)) (type_tag (expr_type left0))")
      (simp_all add: convert_operands_def find_conversion_candidate_spec
        set_converted_value_spec operand_priority_listed)
qed


text \<open>The tags of the example types.\<close>

lemma example_tags:
  "type_tag int4 = Integer" "type_tag int8 = Integer" "type_tag real4 = Real"
  "type_tag char4 = Character" "type_tag logical4 = Logical" "type_tag class0 = Class"
  by (simp_all add: int4_def int8_def real4_def char4_def logical4_def class0_def)

section \<open>Facts about 64-bit arithmetic\<close>

lemma sint_in_range:
  "int64_range k \<Longrightarrow> sint (word_of_int k :: 64 word) = k"
  by (simp add: int64_range_def sint_sbintrunc' signed_take_bit_int_eq_self)

lemma sint_add_exact:
  "int64_range (sint a + sint b) \<Longrightarrow> sint (a + b :: 64 word) = sint a + sint b"
  by (simp add: int64_range_def sint_word_ariths signed_take_bit_int_eq_self)

lemma sint_sub_exact:
  "int64_range (sint a - sint b) \<Longrightarrow> sint (a - b :: 64 word) = sint a - sint b"
  by (simp add: int64_range_def sint_word_ariths signed_take_bit_int_eq_self)

lemma sint_mul_exact:
  "int64_range (sint a * sint b) \<Longrightarrow> sint (a * b :: 64 word) = sint a * sint b"
  by (simp add: int64_range_def sint_word_ariths signed_take_bit_int_eq_self)

lemma sdiv_abs: "\<bar>k sdiv l\<bar> = \<bar>k\<bar> div \<bar>l\<bar>" for k l :: int
proof -
  have nn: "0 \<le> \<bar>k\<bar> div \<bar>l\<bar>"
    by (simp add: pos_imp_zdiv_nonneg_iff div_int_pos_iff)
  show ?thesis
    by (cases "k = 0"; cases "l = 0")
      (simp_all add: signed_divide_int_def abs_mult abs_of_nonneg [OF nn])
qed

lemma sdiv_minus_one: "k sdiv (- 1) = - k" for k :: int
  by (simp add: signed_divide_int_def sgn_if)

lemma sint_int64_min: "sint int64_min = - (2 ^ 63)"
  by (simp add: int64_min_def sint_sbintrunc' signed_take_bit_int_eq_self)

lemma sint_div_int64_range:
  fixes a b :: "64 word"
  assumes "\<not> (a = int64_min \<and> b = - 1)"
  shows "int64_range (sint a sdiv sint b)"
proof -
  have ra: "- (2 ^ 63) \<le> sint a" "sint a < 2 ^ 63"
    using sint_ge [of a] sint_lt [of a] by simp_all
  consider "sint b = - 1" | "sint b = 1" | "\<bar>sint b\<bar> \<noteq> 1"
    by linarith
  then show ?thesis
  proof cases
    case 1
    then have "sint b = sint (- 1 :: 64 word)" by simp
    then have "b = - 1" by (rule signed_word_eqI)
    with assms have "a \<noteq> int64_min" by simp
    then have "sint a \<noteq> sint int64_min" by (auto dest: signed_word_eqI)
    with ra have "- (2 ^ 63) < sint a" by (simp add: sint_int64_min)
    with ra 1 show ?thesis by (simp add: int64_range_def sdiv_minus_one)
  next
    case 2
    with ra show ?thesis by (simp add: int64_range_def)
  next
    case 3
    have "\<bar>sint a sdiv sint b\<bar> < 2 ^ 63"
    proof (cases "sint b = 0")
      case True
      then show ?thesis by (simp add: sdiv_abs)
    next
      case False
      with 3 have two: "2 \<le> \<bar>sint b\<bar>" by linarith
      have "\<bar>sint a\<bar> div \<bar>sint b\<bar> \<le> \<bar>sint a\<bar> div 2"
        using two by (intro zdiv_mono2) simp_all
      also have "\<dots> \<le> 2 ^ 63 div 2"
        using ra by (intro zdiv_mono1) simp_all
      also have "\<dots> < (2 ^ 63 :: int)" by simp
      finally show ?thesis by (simp add: sdiv_abs)
    qed
    then show ?thesis by (simp add: int64_range_def abs_less_iff)
  qed
qed

lemma sint_div_exact:
  fixes a b :: "64 word"
  assumes "\<not> (a = int64_min \<and> b = - 1)"
  shows "sint (word_of_int (sint a sdiv sint b) :: 64 word) = sint a sdiv sint b"
  using assms by (intro sint_in_range sint_div_int64_range)

lemma visit_BinOp_fold:
  assumes "convert_operands left0 right0 = Inr (l, r, dest_type)"
      and "expr_value l = Some (ConstantInteger a ta)"
      and "expr_value r = Some (ConstantInteger b tb)"
      and "type_tag dest_type = Integer"
  shows "visit_BinOp std_pow op left0 right0 =
           (case fold_BinOp std_pow op a b of
              None \<Rightarrow> Inl Abort
            | Some v \<Rightarrow> Inr (BinOp l op r dest_type (Some (ConstantInteger v dest_type))))"
  using assms by (simp add: visit_BinOp_def)

section \<open>Facts about assignment\<close>


section \<open>Facts about generic dispatch\<close>

lemma argument_types_match_iff:
  "argument_types_match args sub_args =
     (length args = length sub_args \<and>
      (\<forall>i < length args. type_tag (expr_type (args ! i)) = type_tag (expr_type (sub_args ! i))))"
  by (auto simp: argument_types_match_def types_equal_def list_all_iff)

lemma select_from_Inr:
  "select_from i args procs = Inr idx \<Longrightarrow>
     i \<le> idx \<and> idx - i < length procs \<and>
     (\<exists>n sub_args abi. procs ! (idx - i) = Subroutine n sub_args abi
        \<and> argument_types_match args sub_args)"
proof (induction procs arbitrary: i)
  case Nil
  then show ?case by simp
next
  case (Cons p ps)
  show ?case
  proof (cases p)
    case (Subroutine n sub_args abi)
    show ?thesis
    proof (cases "argument_types_match args sub_args")
      case True
      with Cons.prems Subroutine show ?thesis by simp
    next
      case False
      with Cons.prems Subroutine have "select_from (Suc i) args ps = Inr idx" by simp
      from Cons.IH [OF this] obtain n' sa' abi' where
        h: "Suc i \<le> idx" "idx - Suc i < length ps"
          "ps ! (idx - Suc i) = Subroutine n' sa' abi'" "argument_types_match args sa'"
        by blast
      from h(1) have "idx - i = Suc (idx - Suc i)" by simp
      with h show ?thesis by simp
    qed
  qed (use Cons.prems in simp_all)
qed

lemma select_from_first:
  "select_from i args procs = Inr idx \<Longrightarrow> j < idx - i \<Longrightarrow>
     \<exists>n sub_args abi. procs ! j = Subroutine n sub_args abi
        \<and> \<not> argument_types_match args sub_args"
proof (induction procs arbitrary: i j)
  case Nil
  then show ?case by simp
next
  case (Cons p ps)
  show ?case
  proof (cases p)
    case (Subroutine n sub_args abi)
    show ?thesis
    proof (cases "argument_types_match args sub_args")
      case True
      with Cons.prems Subroutine show ?thesis by simp
    next
      case False
      with Cons.prems Subroutine have r: "select_from (Suc i) args ps = Inr idx" by simp
      show ?thesis
      proof (cases j)
        case 0
        with Subroutine False show ?thesis by simp
      next
        case (Suc k)
        with Cons.prems(2) have "k < idx - Suc i" by simp
        from Cons.IH [OF r this] Suc show ?thesis by simp
      qed
    qed
  qed (use Cons.prems in simp_all)
qed

lemma select_from_match:
  "k < length procs \<Longrightarrow> procs ! k = Subroutine n sub_args abi \<Longrightarrow>
   argument_types_match args sub_args \<Longrightarrow>
   (\<forall>j < k. \<exists>n' sa' abi'. procs ! j = Subroutine n' sa' abi'
      \<and> \<not> argument_types_match args sa') \<Longrightarrow>
   select_from i args procs = Inr (i + k)"
proof (induction procs arbitrary: i k)
  case Nil
  then show ?case by simp
next
  case (Cons p ps)
  show ?case
  proof (cases k)
    case 0
    with Cons.prems show ?thesis by simp
  next
    case (Suc k')
    from Cons.prems(4) Suc obtain n' sa' abi' where
      p: "p = Subroutine n' sa' abi'" "\<not> argument_types_match args sa'"
      by fastforce
    have rest: "\<forall>j < k'. \<exists>n' sa' abi'. ps ! j = Subroutine n' sa' abi'
        \<and> \<not> argument_types_match args sa'"
      using Cons.prems(4) Suc by fastforce
    from Cons.prems(1,2) Suc have "k' < length ps" "ps ! k' = Subroutine n sub_args abi"
      by simp_all
    from Cons.IH [OF this Cons.prems(3) rest, of "Suc i"] p Suc show ?thesis by simp
  qed
qed

lemma select_from_not_subroutine:
  "k < length procs \<Longrightarrow> \<not> is_Subroutine (procs ! k) \<Longrightarrow>
   (\<forall>j < k. \<exists>n' sa' abi'. procs ! j = Subroutine n' sa' abi'
      \<and> \<not> argument_types_match args sa') \<Longrightarrow>
   select_from i args procs = Inl OnlySubroutineInGeneric"
proof (induction procs arbitrary: i k)
  case Nil
  then show ?case by simp
next
  case (Cons p ps)
  show ?case
  proof (cases k)
    case 0
    with Cons.prems show ?thesis by (cases p) simp_all
  next
    case (Suc k')
    from Cons.prems(3) Suc obtain n' sa' abi' where
      p: "p = Subroutine n' sa' abi'" "\<not> argument_types_match args sa'"
      by fastforce
    have rest: "\<forall>j < k'. \<exists>n' sa' abi'. ps ! j = Subroutine n' sa' abi'
        \<and> \<not> argument_types_match args sa'"
      using Cons.prems(3) Suc by fastforce
    from Cons.prems(1,2) Suc have "k' < length ps" "\<not> is_Subroutine (ps ! k')"
      by simp_all
    from Cons.IH [OF this rest, of "Suc i"] p show ?thesis by simp
  qed
qed

lemma select_from_NoGenericMatch:
  "(select_from i args procs = Inl NoGenericMatch) =
     (\<forall>p \<in> set procs. \<exists>n sub_args abi. p = Subroutine n sub_args abi
        \<and> \<not> argument_types_match args sub_args)"
proof (induction procs arbitrary: i)
  case Nil
  then show ?case by simp
next
  case (Cons p ps)
  then show ?case by (cases p) simp_all
qed

section \<open>Facts about scopes\<close>

lemma scope_insert_lookup:
  "map_of (scope (scope_insert name s cs)) name' =
     (if name' = name then Some s else map_of (scope cs) name')"
  by (simp add: scope_insert_def update_conv')

lemma parent_scope_insert: "parent (scope_insert name s cs) = parent cs"
  by (simp add: scope_insert_def)

lemma scope_no_chain_update:
  "scope_no_chain sc \<Longrightarrow> no_chain s \<Longrightarrow> scope_no_chain (AList.update name s sc)"
  by (induction sc) (auto simp: scope_no_chain_def)

lemma symtab_no_chain_insert:
  "symtab_no_chain cs \<Longrightarrow> no_chain s \<Longrightarrow> symtab_no_chain (scope_insert name s cs)"
  by (cases cs) (simp add: scope_insert_def scope_no_chain_update)

lemma scope_no_chain_map_of:
  "scope_no_chain sc \<Longrightarrow> map_of sc name = Some s \<Longrightarrow> no_chain s"
  by (fastforce simp: scope_no_chain_def list_all_iff dest: map_of_SomeD)

lemma resolve_symbol_no_chain:
  "symtab_no_chain st \<Longrightarrow> resolve_symbol st name = Some s \<Longrightarrow> no_chain s"
proof (induction st name rule: resolve_symbol.induct)
  case (1 sc par name)
  show ?case
  proof (cases "map_of sc name")
    case None
    with "1.prems" obtain p where p: "par = Some p" "resolve_symbol p name = Some s"
      by (auto split: option.splits)
    with "1.prems" have "symtab_no_chain p" by simp
    with "1.IH" [OF None p(1)] p(2) show ?thesis by simp
  next
    case (Some t)
    with "1.prems" have "t = s" "scope_no_chain sc" by simp_all
    with Some show ?thesis by (auto dest: scope_no_chain_map_of)
  qed
qed

lemma visit_Use_symbol_no_chain:
  assumes "visit_Use_symbol m_name acc local_sym t cs = Inr cs'"
      and "symtab_no_chain cs" and "no_chain t"
  shows "symtab_no_chain cs'"
  using assms
  by (cases t) (auto simp: visit_Use_symbol_def symtab_no_chain_insert split: if_splits)

lemma visit_Use_only_no_chain:
  "visit_Use_only m_name m_symtab acc us cs = Inr cs' \<Longrightarrow> symtab_no_chain m_symtab \<Longrightarrow>
     symtab_no_chain cs \<Longrightarrow> symtab_no_chain cs'"
proof (induction us arbitrary: cs)
  case Nil
  then show ?case by simp
next
  case (Cons u us)
  let ?remote = "m_sym u"
  from Cons.prems(1) obtain t where t: "resolve_symbol m_symtab ?remote = Some t"
    by (auto simp: Let_def split: option.splits)
  with Cons.prems(1) obtain cs1 where
    s: "visit_Use_symbol m_name acc (case m_rename u of Some r \<Rightarrow> r | None \<Rightarrow> ?remote) t cs = Inr cs1"
    and r: "visit_Use_only m_name m_symtab acc us cs1 = Inr cs'"
    by (auto simp: Let_def split: sum.splits)
  from t Cons.prems(2) have "no_chain t" by (rule resolve_symbol_no_chain [rotated])
  with s Cons.prems(3) have "symtab_no_chain cs1" by (rule visit_Use_symbol_no_chain)
  with Cons.IH [OF r Cons.prems(2)] show ?case .
qed

lemma visit_Use_all_no_chain:
  "visit_Use_all m_name acc items cs = Inr cs' \<Longrightarrow> symtab_no_chain cs \<Longrightarrow> symtab_no_chain cs'"
proof (induction items arbitrary: cs)
  case Nil
  then show ?case by simp
next
  case (Cons item items)
  show ?case
  proof (cases "snd item")
    case (Subroutine n args abi)
    with Cons.prems(1) have "visit_Use_all m_name acc items
        (scope_insert n (ExternalSymbol n (snd item) m_name n acc) cs) = Inr cs'" by simp
    moreover have "symtab_no_chain (scope_insert n (ExternalSymbol n (snd item) m_name n acc) cs)"
      using Cons.prems(2) Subroutine by (simp add: symtab_no_chain_insert)
    ultimately show ?thesis by (rule Cons.IH)
  next
    case (Function n args abi)
    with Cons.prems(1) have "visit_Use_all m_name acc items
        (scope_insert n (ExternalSymbol n (snd item) m_name n acc) cs) = Inr cs'" by simp
    moreover have "symtab_no_chain (scope_insert n (ExternalSymbol n (snd item) m_name n acc) cs)"
      using Cons.prems(2) Function by (simp add: symtab_no_chain_insert)
    ultimately show ?thesis by (rule Cons.IH)
  next
    case (GenericProcedure n procs)
    with Cons.prems(1) have "visit_Use_all m_name acc items
        (scope_insert n (ExternalSymbol n (snd item) m_name n acc) cs) = Inr cs'" by simp
    moreover have "symtab_no_chain (scope_insert n (ExternalSymbol n (snd item) m_name n acc) cs)"
      using Cons.prems(2) GenericProcedure by (simp add: symtab_no_chain_insert)
    ultimately show ?thesis by (rule Cons.IH)
  next
    case (Variable n ty)
    with Cons.prems(1) have "visit_Use_all m_name acc items
        (scope_insert n (ExternalSymbol n (snd item) m_name n acc) cs) = Inr cs'" by simp
    moreover have "symtab_no_chain (scope_insert n (ExternalSymbol n (snd item) m_name n acc) cs)"
      using Cons.prems(2) Variable by (simp add: symtab_no_chain_insert)
    ultimately show ?thesis by (rule Cons.IH)
  qed (use Cons.prems(1) in simp_all)
qed

lemma visit_Use_scope:
  assumes "visit_Use load_module v x = Inr v'"
  obtains m_name m_symtab m_deps where
    "used_module load_module v (m_module x) = Inr (Module m_name m_symtab m_deps)"
    "(if m_symbols x = []
      then visit_Use_all m_name (dflt_access v) (scope m_symtab) (current_scope v)
      else visit_Use_only m_name m_symtab (dflt_access v) (m_symbols x) (current_scope v))
     = Inr (current_scope v')"
    "current_module_dependencies v' =
       (if \<not> present (current_module_dependencies v) (m_module x)
        then current_module_dependencies v @ [m_module x]
        else current_module_dependencies v)"
proof -
  from assms obtain t where t: "used_module load_module v (m_module x) = Inr t"
    by (auto simp: visit_Use_def Let_def split: sum.splits)
  with assms obtain m_name m_symtab m_deps where m: "t = Module m_name m_symtab m_deps"
    by (cases t) (auto simp: visit_Use_def Let_def)
  from assms t m obtain cs where
    cs: "(if m_symbols x = []
      then visit_Use_all m_name (dflt_access v) (scope m_symtab) (current_scope v)
      else visit_Use_only m_name m_symtab (dflt_access v) (m_symbols x) (current_scope v))
     = Inr cs"
    and v': "v' = v\<lparr>current_scope := cs, current_module_dependencies :=
       (if \<not> present (current_module_dependencies v) (m_module x)
        then current_module_dependencies v @ [m_module x]
        else current_module_dependencies v)\<rparr>"
    by (auto simp: visit_Use_def Let_def split: sum.splits if_splits)
  show thesis
    using t m cs v' by (intro that [of m_name m_symtab m_deps]) simp_all
qed

lemma visit_SubroutineCall_no_chain:
  assumes "visit_SubroutineCall cs resolved args = Inr (st, cs')" and "symtab_no_chain cs"
  shows "symtab_no_chain cs'"
proof -
  have ext: "\<not> is_ExternalSymbol s" if "is_Subroutine s" for s
    using that by (cases s) simp_all
  show ?thesis
    using assms
    by (auto simp: visit_SubroutineCall_def Let_def ext intro!: symtab_no_chain_insert
        split: option.splits symbol.splits sum.splits if_splits)
qed

lemma load_intrinsic_no_chain:
  assumes "load_intrinsic load_module cs remote_sym = Inr (fn, cs', m_name)"
      and "symtab_no_chain cs"
  shows "symtab_no_chain cs' \<and> no_chain fn"
  using assms
  by (auto simp: load_intrinsic_def Let_def symtab_no_chain_insert
      split: option.splits symbol.splits sum.splits)

section \<open>Facts about dependency lists and the examples\<close>

lemma present_iff: "present deps name = (name \<in> set deps)"
  by (simp add: present_def)

lemma distinct_add_dependency:
  "distinct deps \<Longrightarrow> distinct (if \<not> present deps name then deps @ [name] else deps)"
  by (simp add: present_iff)

lemma visit_Use_dependencies:
  assumes "visit_Use load_module v x = Inr v'"
  shows "current_module_dependencies v' =
           (if m_module x \<in> set (current_module_dependencies v)
            then current_module_dependencies v
            else current_module_dependencies v @ [m_module x])"
  using assms by (rule visit_Use_scope) (simp add: present_iff)

lemma visit_uses_distinct:
  "visit_uses load_module v xs = Inr v' \<Longrightarrow> distinct (current_module_dependencies v) \<Longrightarrow>
     distinct (current_module_dependencies v')"
proof (induction xs arbitrary: v)
  case Nil
  then show ?case by simp
next
  case (Cons x xs)
  from Cons.prems(1) obtain v1 where
    s: "visit_Use load_module v x = Inr v1" and r: "visit_uses load_module v1 xs = Inr v'"
    by (auto split: sum.splits)
  from visit_Use_dependencies [OF s] Cons.prems(2)
  have "distinct (current_module_dependencies v1)" by (simp split: if_splits)
  with r show ?case by (rule Cons.IH)
qed

lemma example_used_module:
  "used_module no_loader \<lparr>current_scope = SymbolTable sc (Some global_with_b),
      current_module_dependencies = deps, dflt_access = Public\<rparr> ''b''
     = Inr (Module ''b'' module_b_symtab [''a''])"
  by (simp add: used_module_def global_with_b_def)

lemma example_resolve_f:
  "resolve_symbol module_b_symtab ''f''
     = Some (ExternalSymbol ''f'' (Subroutine ''f'' [] Source) ''a'' ''f'' Public)"
  by (simp add: module_b_symtab_def)

lemma example_use_only_f:
  "visit_Use_only ''b'' module_b_symtab Public [UseSymbol ''f'' None]
       (SymbolTable [] (Some global_with_b))
     = Inr (SymbolTable
         [(''f'', ExternalSymbol ''f'' (Subroutine ''f'' [] Source) ''a'' ''f'' Public)]
         (Some global_with_b))"
  by (simp add: Let_def example_resolve_f visit_Use_symbol_def scope_defines_def scope_insert_def)

lemma example_visit_Use:
  "visit_Use no_loader program_visitor use_b_only_f = Inr program_visitor_after"
  by (simp add: visit_Use_def Let_def program_visitor_def use_b_only_f_def program_visitor_after_def
      example_used_module example_resolve_f visit_Use_symbol_def scope_defines_def
      scope_insert_def present_def)

lemma example_visit_Use_again:
  "visit_Use no_loader program_visitor_after use_b_f_as_g = Inr program_visitor_final"
  by (simp add: visit_Use_def Let_def program_visitor_after_def use_b_f_as_g_def
      program_visitor_final_def example_used_module example_resolve_f visit_Use_symbol_def
      scope_defines_def scope_insert_def present_def)

section \<open>The claims\<close>

text \<open>
  C1 (as amended). In every binary, comparison and boolean operation the conversion
  candidate is the one \<open>find_conversion_candidate\<close> names, whatever the types of the
  two operands: the operand whose family has the strictly higher priority (Integer 4,
  Real 5, Complex 6, the others -1) is the destination and the other operand is cast;
  when the two priorities are equal, the left operand is the destination and the right
  operand is the one that gets cast. An operand of type \<open>Class\<close>, which the priority
  table does not list, is ranked by the entry the lookup finds for it, Integer's 4.
\<close>

theorem find_conversion_candidate_priority:
  "find_conversion_candidate left_type right_type =
     (if operand_priority (type_tag left_type) < operand_priority (type_tag right_type)
      then (left, left_type, right_type)
      else (right, right_type, left_type))
   \<and> (t \<noteq> Class \<longrightarrow> operand_priority t = spec_priority t)
   \<and> operand_priority Class = 4
   \<and> (case convert_operands left0 right0 of
         Inl e \<Rightarrow> True
       | Inr (l, r, dest_type) \<Rightarrow>
           dest_type =
             (if operand_priority (type_tag (expr_type left0))
                   < operand_priority (type_tag (expr_type right0))
              then expr_type right0 else expr_type left0)
           \<and> (if operand_priority (type_tag (expr_type left0))
                   < operand_priority (type_tag (expr_type right0))
              then r = right0 else l = left0))"
proof -
  have d: "(case convert_operands left0 right0 of
         Inl e \<Rightarrow> True
       | Inr (l, r, dest_type) \<Rightarrow>
           dest_type =
             (if operand_priority (type_tag (expr_type left0))
                   < operand_priority (type_tag (expr_type right0))
              then expr_type right0 else expr_type left0)
           \<and> (if operand_priority (type_tag (expr_type left0))
                   < operand_priority (type_tag (expr_type right0))
              then r = right0 else l = left0))"
    by (auto simp: convert_operands_def find_conversion_candidate_spec split: sum.splits)
  show ?thesis
    using d by (simp add: find_conversion_candidate_spec operand_priority_def)
qed

text \<open>
  C1 at an integer and a real operand in both orders, at two integers of different kinds,
  and at a class operand beside a real one.
\<close>

theorem find_conversion_candidate_priority_witness:
  "find_conversion_candidate int4 real4 = (left, int4, real4)
   \<and> find_conversion_candidate real4 int4 = (right, int4, real4)
   \<and> find_conversion_candidate int4 int8 = (right, int8, int4)
   \<and> find_conversion_candidate class0 real4 = (left, class0, real4)"
  using find_conversion_candidate_priority [of int4 real4]
    find_conversion_candidate_priority [of real4 int4]
    find_conversion_candidate_priority [of int4 int8]
    find_conversion_candidate_priority [of class0 real4]
  by (simp add: example_tags operand_priority_def spec_priority_def)

text \<open>
  C1 as stated fails on a tie: for a left operand of type integer(4) and a right operand
  of type integer(8) the priorities are equal, and the right operand is not the
  destination.
\<close>

theorem tie_destination_counterexample:
  "spec_priority (type_tag int4) = spec_priority (type_tag int8)
   \<and> find_conversion_candidate int4 int8 \<noteq> (left, int4, int8)"
  by (simp add: find_conversion_candidate_def type_priority_def num_types_def
      int4_def int8_def spec_priority_def)



text \<open>
  C2 as stated fails for a source of type \<open>Class\<close>: the lookup takes the row at the
  tag modulo 6, which is Integer's, so a class value headed for a real is wrapped in an
  integer-to-real cast, and one headed for a character is refused, though the source
  family is not Integer.
\<close>

theorem class_source_counterexample:
  "set_converted_value (Var ''x'' class0 None) class0 real4
     = Inr (ImplicitCast (Var ''x'' class0 None) IntegerToReal real4 None)
   \<and> set_converted_value (Var ''x'' class0 None) class0 char4 = Inl IllegalCoercion
   \<and> base_family (type_tag class0) \<noteq> Integer
   \<and> base_family (type_tag class0) \<noteq> base_family (type_tag real4)"
  by (simp add: set_converted_value_def Let_def is_same_type_pointer_def is_pointer_def
      rule_map_at_def rule_map_def num_types_def rule_names class0_def real4_def char4_def)

text \<open>
  C3 (as amended). When the two operands of a binary operation, as they stand after cast
  insertion, both carry constant integer values \<open>a\<close> and \<open>b\<close> and the destination
  type is Integer, the \<open>BinOp\<close> node carries a folded constant of the destination type,
  computed in \<open>int64_t\<close>: \<open>a + b\<close>, \<open>a - b\<close> and \<open>a * b\<close> wrapped to 64 bits, which is
  the exact result whenever that fits; for \<open>/\<close>, with a divisor other than zero and
  not \<open>INT64_MIN / -1\<close>, the exact quotient truncated towards zero; for \<open>**\<close> what
  \<open>std::pow\<close> gives, converted. Lowering \<open>i = 2 + 3\<close> for an integer \<open>i\<close> gives an
  assignment whose right-hand side is the \<open>BinOp\<close> with the folded constant 5 and no
  cast node.
\<close>

theorem visit_BinOp_folds_int64:
  assumes "convert_operands left0 right0 = Inr (l, r, dest_type)"
      and "expr_value l = Some (ConstantInteger a ta)"
      and "expr_value r = Some (ConstantInteger b tb)"
      and "type_tag dest_type = Integer"
  shows "(op = Add \<longrightarrow>
            visit_BinOp std_pow op left0 right0
              = Inr (BinOp l op r dest_type (Some (ConstantInteger (a + b) dest_type)))
            \<and> (int64_range (sint a + sint b) \<longrightarrow> sint (a + b) = sint a + sint b))
       \<and> (op = Sub \<longrightarrow>
            visit_BinOp std_pow op left0 right0
              = Inr (BinOp l op r dest_type (Some (ConstantInteger (a - b) dest_type)))
            \<and> (int64_range (sint a - sint b) \<longrightarrow> sint (a - b) = sint a - sint b))
       \<and> (op = Mul \<longrightarrow>
            visit_BinOp std_pow op left0 right0
              = Inr (BinOp l op r dest_type (Some (ConstantInteger (a * b) dest_type)))
            \<and> (int64_range (sint a * sint b) \<longrightarrow> sint (a * b) = sint a * sint b))
       \<and> (op = Div \<and> b \<noteq> 0 \<and> \<not> (a = int64_min \<and> b = - 1) \<longrightarrow>
            visit_BinOp std_pow op left0 right0
              = Inr (BinOp l op r dest_type
                  (Some (ConstantInteger (word_of_int (sint a sdiv sint b)) dest_type)))
            \<and> sint (word_of_int (sint a sdiv sint b) :: 64 word) = sint a sdiv sint b)
       \<and> (op = Pow \<longrightarrow>
            visit_BinOp std_pow op left0 right0
              = Inr (BinOp l op r dest_type (Some (ConstantInteger (std_pow a b) dest_type))))
       \<and> visit_Assignment (Inr (Var ''i'' int4 None))
            (visit_BinOp std_pow Add (ConstantInteger 2 int4) (ConstantInteger 3 int4))
           = Inr (Assignment (Var ''i'' int4 None)
               (BinOp (ConstantInteger 2 int4) Add (ConstantInteger 3 int4) int4
                  (Some (ConstantInteger 5 int4))))"
proof -
  note f = visit_BinOp_fold [OF assms, of std_pow op]
  have add: "op = Add \<Longrightarrow> visit_BinOp std_pow op left0 right0
      = Inr (BinOp l op r dest_type (Some (ConstantInteger (a + b) dest_type)))"
    using f by (simp add: fold_BinOp_def)
  have sub: "op = Sub \<Longrightarrow> visit_BinOp std_pow op left0 right0
      = Inr (BinOp l op r dest_type (Some (ConstantInteger (a - b) dest_type)))"
    using f by (simp add: fold_BinOp_def)
  have mul: "op = Mul \<Longrightarrow> visit_BinOp std_pow op left0 right0
      = Inr (BinOp l op r dest_type (Some (ConstantInteger (a * b) dest_type)))"
    using f by (simp add: fold_BinOp_def)
  have dv: "op = Div \<Longrightarrow> b \<noteq> 0 \<Longrightarrow> \<not> (a = int64_min \<and> b = - 1) \<Longrightarrow>
      visit_BinOp std_pow op left0 right0
      = Inr (BinOp l op r dest_type
          (Some (ConstantInteger (word_of_int (sint a sdiv sint b)) dest_type)))"
    using f by (simp add: fold_BinOp_def)
  have pw: "op = Pow \<Longrightarrow> visit_BinOp std_pow op left0 right0
      = Inr (BinOp l op r dest_type (Some (ConstantInteger (std_pow a b) dest_type)))"
    using f by (simp add: fold_BinOp_def)
  have c: "convert_operands (ConstantInteger 2 int4) (ConstantInteger 3 int4)
      = Inr (ConstantInteger 2 int4, ConstantInteger 3 int4, int4)"
    by (simp add: convert_operands_def find_conversion_candidate_spec set_converted_value_spec
        example_tags)
  have t: "type_tag int4 = Integer" by (simp add: int4_def)
  have b5: "visit_BinOp std_pow Add (ConstantInteger 2 int4) (ConstantInteger 3 int4)
      = Inr (BinOp (ConstantInteger 2 int4) Add (ConstantInteger 3 int4) int4
          (Some (ConstantInteger 5 int4)))"
    by (simp add: visit_BinOp_def c fold_BinOp_def t)
  have ex: "visit_Assignment (Inr (Var ''i'' int4 None))
            (visit_BinOp std_pow Add (ConstantInteger 2 int4) (ConstantInteger 3 int4))
           = Inr (Assignment (Var ''i'' int4 None)
               (BinOp (ConstantInteger 2 int4) Add (ConstantInteger 3 int4) int4
                  (Some (ConstantInteger 5 int4))))"
    by (simp add: b5 visit_Assignment_def set_converted_value_spec is_array_def example_tags)
  show ?thesis
    using add sub mul dv pw ex sint_add_exact sint_sub_exact sint_mul_exact sint_div_exact
    by blast
qed

theorem visit_BinOp_folds_int64_witness:
  "visit_BinOp exact_pow Mul (ConstantInteger 6 int4) (ConstantInteger 7 int4)
     = Inr (BinOp (ConstantInteger 6 int4) Mul (ConstantInteger 7 int4) int4
         (Some (ConstantInteger 42 int4)))
   \<and> sint (6 * 7 :: 64 word) = 42
   \<and> visit_BinOp exact_pow Div (ConstantInteger (- 7) int4) (ConstantInteger 2 int4)
     = Inr (BinOp (ConstantInteger (- 7) int4) Div (ConstantInteger 2 int4) int4
         (Some (ConstantInteger (- 3) int4)))"
proof -
  have c: "convert_operands (ConstantInteger x int4) (ConstantInteger y int4)
      = Inr (ConstantInteger x int4, ConstantInteger y int4, int4)" for x y
    by (simp add: convert_operands_def find_conversion_candidate_spec set_converted_value_spec
        example_tags)
  have t: "type_tag int4 = Integer" by (simp add: int4_def)
  have v: "expr_value (ConstantInteger x int4) = Some (ConstantInteger x int4)" for x
    by simp
  have m: "int64_min \<noteq> (- 7 :: 64 word)" by (simp add: int64_min_def)
  have q: "(word_of_int (sint (- 7 :: 64 word) sdiv sint (2 :: 64 word)) :: 64 word) = - 3"
    by (simp add: signed_divide_int_def)
  from visit_BinOp_folds_int64 [OF c v [of 6] v [of 7] t, where op = Mul and std_pow = exact_pow]
    visit_BinOp_folds_int64 [OF c v [of "- 7"] v [of 2] t, where op = Div and std_pow = exact_pow]
    m q
  show ?thesis by (simp add: int64_range_def)
qed

text \<open>
  C3 as stated fails where the exact result does not fit: \<open>4611686018427387903 * 4\<close>
  (the largest literal the analyzer accepts, times four) folds to \<open>-4\<close>.
\<close>

theorem visit_BinOp_overflow_counterexample:
  "visit_BinOp exact_pow Mul (ConstantInteger 4611686018427387903 int4) (ConstantInteger 4 int4)
     = Inr (BinOp (ConstantInteger 4611686018427387903 int4) Mul (ConstantInteger 4 int4) int4
         (Some (ConstantInteger (- 4) int4)))
   \<and> sint (- 4 :: 64 word) \<noteq> 4611686018427387903 * 4"
proof -
  have c: "convert_operands (ConstantInteger x int4) (ConstantInteger y int4)
      = Inr (ConstantInteger x int4, ConstantInteger y int4, int4)" for x y
    by (simp add: convert_operands_def find_conversion_candidate_spec set_converted_value_spec
        example_tags)
  have t: "type_tag int4 = Integer" by (simp add: int4_def)
  show ?thesis
    by (simp add: visit_BinOp_def c fold_BinOp_def t)
qed




text \<open>
  C5 (as amended). For a subroutine call that resolves to a \<open>GenericProcedure\<close>,
  directly or through an \<open>ExternalSymbol\<close>, the members of the generic are tried in
  order. A member matches when it is a subroutine whose formal-argument list has the
  length of the actual-argument list and whose formal types equal the actual types
  pairwise by type tag, hence by family; kinds are not compared. The first member that
  matches is the one selected, and it is selected whenever the members before it are
  subroutines that do not match. A member that is not a subroutine, met before a match,
  raises the error "Only Subroutine supported in generic procedure". \<open>NoGenericMatch\<close>
  is raised exactly when every member of the generic is a subroutine and none of them
  matches. The call refers to the selected member, directly or through a new or cached
  \<open>ExternalSymbol\<close> for it, and the error of the selection is the error of the call.
\<close>

theorem select_generic_procedure_match:
  "(select_generic_procedure args m_procs = Inr idx \<longrightarrow>
      idx < length m_procs \<and>
      (\<exists>n sub_args abi. m_procs ! idx = Subroutine n sub_args abi
         \<and> length sub_args = length args
         \<and> (\<forall>i < length args.
               type_tag (expr_type (args ! i)) = type_tag (expr_type (sub_args ! i))
               \<and> base_family (type_tag (expr_type (args ! i)))
                   = base_family (type_tag (expr_type (sub_args ! i))))))
   \<and> ((select_generic_procedure args m_procs = Inl NoGenericMatch) =
        (\<forall>p \<in> set m_procs. \<exists>n sub_args abi. p = Subroutine n sub_args abi
           \<and> \<not> (length args = length sub_args \<and>
                 (\<forall>i < length args.
                    type_tag (expr_type (args ! i)) = type_tag (expr_type (sub_args ! i))))))
   \<and> (select_generic_procedure args m_procs = Inr idx \<and> j < idx \<longrightarrow>
        (\<exists>n sub_args abi. m_procs ! j = Subroutine n sub_args abi
           \<and> \<not> (length args = length sub_args \<and>
                 (\<forall>i < length args.
                    type_tag (expr_type (args ! i)) = type_tag (expr_type (sub_args ! i))))))
   \<and> argument_types_match args formals =
        (length args = length formals \<and>
         (\<forall>i < length args.
            type_tag (expr_type (args ! i)) = type_tag (expr_type (formals ! i))))
   \<and> (k < length m_procs \<and> m_procs ! k = Subroutine sn formals sabi
        \<and> argument_types_match args formals
        \<and> (\<forall>j < k. \<exists>n' sa' abi'. m_procs ! j = Subroutine n' sa' abi'
              \<and> \<not> argument_types_match args sa') \<longrightarrow>
        select_generic_procedure args m_procs = Inr k)
   \<and> (k < length m_procs \<and> \<not> is_Subroutine (m_procs ! k)
        \<and> (\<forall>j < k. \<exists>n' sa' abi'. m_procs ! j = Subroutine n' sa' abi'
              \<and> \<not> argument_types_match args sa') \<longrightarrow>
        select_generic_procedure args m_procs = Inl OnlySubroutineInGeneric)
   \<and> visit_SubroutineCall cs (Some (GenericProcedure g m_procs)) args =
        (case select_generic_procedure args m_procs of
           Inl e \<Rightarrow> Inl e
         | Inr k \<Rightarrow> Inr (SubroutineCall (Some (m_procs ! k))
                          (Some (GenericProcedure g m_procs)) args, cs))
   \<and> (select_generic_procedure args m_procs = Inl e \<longrightarrow>
        visit_SubroutineCall cs
          (Some (ExternalSymbol p_name (GenericProcedure g m_procs) mn orig acc)) args = Inl e)
   \<and> (select_generic_procedure args m_procs = Inr idx \<longrightarrow>
        visit_SubroutineCall cs
          (Some (ExternalSymbol p_name (GenericProcedure g m_procs) mn orig acc)) args =
          (case map_of (scope cs) (p_name @ ''@'' @ symbol_name (m_procs ! idx)) of
             None \<Rightarrow>
               Inr (SubroutineCall
                      (Some (ExternalSymbol (p_name @ ''@'' @ symbol_name (m_procs ! idx))
                         (m_procs ! idx) mn (symbol_name (m_procs ! idx)) Private))
                      (Some (ExternalSymbol p_name (GenericProcedure g m_procs) mn orig acc))
                      args,
                    scope_insert (p_name @ ''@'' @ symbol_name (m_procs ! idx))
                      (ExternalSymbol (p_name @ ''@'' @ symbol_name (m_procs ! idx))
                         (m_procs ! idx) mn (symbol_name (m_procs ! idx)) Private) cs)
           | Some cached \<Rightarrow>
               Inr (SubroutineCall (Some cached)
                      (Some (ExternalSymbol p_name (GenericProcedure g m_procs) mn orig acc))
                      args, cs)))"
proof -
  have sel: "idx < length m_procs \<and>
      (\<exists>n sub_args abi. m_procs ! idx = Subroutine n sub_args abi
         \<and> length sub_args = length args
         \<and> (\<forall>i < length args.
               type_tag (expr_type (args ! i)) = type_tag (expr_type (sub_args ! i))
               \<and> base_family (type_tag (expr_type (args ! i)))
                   = base_family (type_tag (expr_type (sub_args ! i)))))"
    if "select_generic_procedure args m_procs = Inr idx"
  proof -
    from that have "select_from 0 args m_procs = Inr idx"
      by (simp add: select_generic_procedure_def)
    from select_from_Inr [OF this] obtain n sub_args abi where
      h: "idx < length m_procs" "m_procs ! idx = Subroutine n sub_args abi"
        "argument_types_match args sub_args"
      by auto
    from h(3) have "length sub_args = length args"
      and "\<forall>i < length args. type_tag (expr_type (args ! i)) = type_tag (expr_type (sub_args ! i))"
      by (simp_all add: argument_types_match_iff)
    with h(1,2) show ?thesis by simp
  qed
  have nom: "(select_generic_procedure args m_procs = Inl NoGenericMatch) =
        (\<forall>p \<in> set m_procs. \<exists>n sub_args abi. p = Subroutine n sub_args abi
           \<and> \<not> (length args = length sub_args \<and>
                 (\<forall>i < length args.
                    type_tag (expr_type (args ! i)) = type_tag (expr_type (sub_args ! i)))))"
    by (simp add: select_generic_procedure_def select_from_NoGenericMatch
        argument_types_match_iff)
  have fst: "\<exists>n sub_args abi. m_procs ! j = Subroutine n sub_args abi
           \<and> \<not> (length args = length sub_args \<and>
                 (\<forall>i < length args.
                    type_tag (expr_type (args ! i)) = type_tag (expr_type (sub_args ! i))))"
    if "select_generic_procedure args m_procs = Inr idx \<and> j < idx"
  proof -
    from that have "select_from 0 args m_procs = Inr idx" and "j < idx - 0"
      by (simp_all add: select_generic_procedure_def)
    from select_from_first [OF this] show ?thesis
      by (simp add: argument_types_match_iff)
  qed
  have hit: "select_generic_procedure args m_procs = Inr k"
    if "k < length m_procs \<and> m_procs ! k = Subroutine sn formals sabi
        \<and> argument_types_match args formals
        \<and> (\<forall>j < k. \<exists>n' sa' abi'. m_procs ! j = Subroutine n' sa' abi'
              \<and> \<not> argument_types_match args sa')"
    using that select_from_match [of k m_procs sn formals sabi args 0]
    by (simp add: select_generic_procedure_def)
  have other: "select_generic_procedure args m_procs = Inl OnlySubroutineInGeneric"
    if "k < length m_procs \<and> \<not> is_Subroutine (m_procs ! k)
        \<and> (\<forall>j < k. \<exists>n' sa' abi'. m_procs ! j = Subroutine n' sa' abi'
              \<and> \<not> argument_types_match args sa')"
    using that select_from_not_subroutine [of k m_procs args 0]
    by (simp add: select_generic_procedure_def)
  have call: "visit_SubroutineCall cs (Some (GenericProcedure g m_procs)) args =
        (case select_generic_procedure args m_procs of
           Inl e \<Rightarrow> Inl e
         | Inr k \<Rightarrow> Inr (SubroutineCall (Some (m_procs ! k))
                          (Some (GenericProcedure g m_procs)) args, cs))"
    by (simp add: visit_SubroutineCall_def)
  have ext: "visit_SubroutineCall cs
          (Some (ExternalSymbol p_name (GenericProcedure g m_procs) mn orig acc)) args = Inl e"
    if "select_generic_procedure args m_procs = Inl e"
    using that by (simp add: visit_SubroutineCall_def)
  have ext_ok: "visit_SubroutineCall cs
          (Some (ExternalSymbol p_name (GenericProcedure g m_procs) mn orig acc)) args =
          (case map_of (scope cs) (p_name @ ''@'' @ symbol_name (m_procs ! idx)) of
             None \<Rightarrow>
               Inr (SubroutineCall
                      (Some (ExternalSymbol (p_name @ ''@'' @ symbol_name (m_procs ! idx))
                         (m_procs ! idx) mn (symbol_name (m_procs ! idx)) Private))
                      (Some (ExternalSymbol p_name (GenericProcedure g m_procs) mn orig acc))
                      args,
                    scope_insert (p_name @ ''@'' @ symbol_name (m_procs ! idx))
                      (ExternalSymbol (p_name @ ''@'' @ symbol_name (m_procs ! idx))
                         (m_procs ! idx) mn (symbol_name (m_procs ! idx)) Private) cs)
           | Some cached \<Rightarrow>
               Inr (SubroutineCall (Some cached)
                      (Some (ExternalSymbol p_name (GenericProcedure g m_procs) mn orig acc))
                      args, cs))"
    if s: "select_generic_procedure args m_procs = Inr idx"
  proof -
    from sel [OF s] have "is_Subroutine (m_procs ! idx)" by auto
    with s show ?thesis
      by (simp add: visit_SubroutineCall_def Let_def split: option.splits)
  qed
  show ?thesis
    apply (intro conjI impI)
    subgoal using sel by blast
    subgoal using sel by blast
    subgoal by (rule nom)
    subgoal using fst by blast
    subgoal by (rule argument_types_match_iff)
    subgoal using hit by blast
    subgoal using other by blast
    subgoal by (rule call)
    subgoal using ext by blast
    subgoal using ext_ok by blast
    done
qed

text \<open>
  C5 at a generic of a real and an integer subroutine: an integer(8) actual selects the
  integer(4) one, a logical actual matches none.
\<close>

theorem select_generic_procedure_match_witness:
  "select_generic_procedure [Var ''n'' int8 None] generic_example = Inr 1
   \<and> generic_example ! 1 = Subroutine ''s_int'' [Var ''a'' int4 None] Source
   \<and> select_generic_procedure [ConstantLogical True logical4] generic_example
       = Inl NoGenericMatch"
proof -
  have m: "argument_types_match [Var ''n'' int8 None] [Var ''a'' int4 None]"
    "\<not> argument_types_match [Var ''n'' int8 None] [Var ''a'' real4 None]"
    by (simp_all add: argument_types_match_def types_equal_def example_tags)
  have "1 < length generic_example \<and>
      generic_example ! 1 = Subroutine ''s_int'' [Var ''a'' int4 None] Source
      \<and> argument_types_match [Var ''n'' int8 None] [Var ''a'' int4 None]
      \<and> (\<forall>j < 1. \<exists>n' sa' abi'. generic_example ! j = Subroutine n' sa' abi'
            \<and> \<not> argument_types_match [Var ''n'' int8 None] sa')"
    using m by (simp add: generic_example_def)
  note select_generic_procedure_match
    [where args = "[Var ''n'' int8 None]" and m_procs = generic_example and k = 1
      and sn = "''s_int''" and formals = "[Var ''a'' int4 None]" and sabi = Source,
      THEN conjunct2, THEN conjunct2, THEN conjunct2, THEN conjunct2, THEN conjunct1,
      THEN mp, OF this]
  then have s: "select_generic_procedure [Var ''n'' int8 None] generic_example = Inr 1" .
  have "select_generic_procedure [ConstantLogical True logical4] generic_example
       = Inl NoGenericMatch"
    by (simp add: select_generic_procedure_def generic_example_def argument_types_match_def
        types_equal_def example_tags)
  with s show ?thesis by (simp add: generic_example_def)
qed

text \<open>
  C5 as stated fails for a generic with a member that is not a subroutine: no specific
  procedure matches, and the error is not \<open>NoGenericMatch\<close>.
\<close>

theorem generic_of_functions_counterexample:
  "select_generic_procedure [Var ''x'' int4 None] [Function ''f'' [Var ''a'' real4 None] Source]
     = Inl OnlySubroutineInGeneric
   \<and> visit_SubroutineCall (SymbolTable [] None)
       (Some (GenericProcedure ''g'' [Function ''f'' [Var ''a'' real4 None] Source]))
       [Var ''x'' int4 None]
     \<noteq> Inl NoGenericMatch"
  by (simp add: select_generic_procedure_def visit_SubroutineCall_def)

text \<open>
  C6. The operations that put an \<open>ExternalSymbol\<close> into a scope keep the scopes free of
  chains. A \<open>use\<close> statement, for a module whose own scopes are free of chains, leaves
  the current scope free of them: where the remote symbol is itself an \<open>ExternalSymbol\<close>,
  the new one carries that symbol's target, module name and original name, so it points
  at the ultimate target. A subroutine call through an external generic, and the
  on-demand load of an intrinsic, add only externals that point at a procedure.
\<close>

theorem no_external_chains:
  "(visit_Use load_module v x = Inr v'
      \<and> symtab_no_chain (current_scope v)
      \<and> (\<forall>m_name m_symtab m_deps.
            used_module load_module v (m_module x) = Inr (Module m_name m_symtab m_deps)
            \<longrightarrow> symtab_no_chain m_symtab)
     \<longrightarrow> symtab_no_chain (current_scope v'))
   \<and> (\<not> scope_defines cs local_sym \<longrightarrow>
        visit_Use_symbol m_name acc local_sym
            (ExternalSymbol es_name es_external es_module_name es_original_name es_access) cs
          = Inr (scope_insert local_sym
              (ExternalSymbol es_name es_external es_module_name es_original_name es_access) cs))
   \<and> (visit_SubroutineCall cs resolved args = Inr (st, cs') \<and> symtab_no_chain cs
        \<longrightarrow> symtab_no_chain cs')
   \<and> (load_intrinsic load_module cs remote_sym = Inr (fn, cs'', loaded) \<and> symtab_no_chain cs
        \<longrightarrow> symtab_no_chain cs'' \<and> no_chain fn)"
proof (intro conjI impI)
  assume a: "visit_Use load_module v x = Inr v'
      \<and> symtab_no_chain (current_scope v)
      \<and> (\<forall>m_name m_symtab m_deps.
            used_module load_module v (m_module x) = Inr (Module m_name m_symtab m_deps)
            \<longrightarrow> symtab_no_chain m_symtab)"
  then have u: "visit_Use load_module v x = Inr v'" and c: "symtab_no_chain (current_scope v)"
    by simp_all
  from u obtain m_name m_symtab m_deps where
    m: "used_module load_module v (m_module x) = Inr (Module m_name m_symtab m_deps)"
    and s: "(if m_symbols x = []
      then visit_Use_all m_name (dflt_access v) (scope m_symtab) (current_scope v)
      else visit_Use_only m_name m_symtab (dflt_access v) (m_symbols x) (current_scope v))
     = Inr (current_scope v')"
    by (rule visit_Use_scope)
  from a m have ms: "symtab_no_chain m_symtab" by blast
  show "symtab_no_chain (current_scope v')"
  proof (cases "m_symbols x = []")
    case True
    with s c show ?thesis by (auto dest: visit_Use_all_no_chain)
  next
    case False
    with s c ms show ?thesis by (auto dest: visit_Use_only_no_chain)
  qed
next
  assume "\<not> scope_defines cs local_sym"
  then show "visit_Use_symbol m_name acc local_sym
            (ExternalSymbol es_name es_external es_module_name es_original_name es_access) cs
          = Inr (scope_insert local_sym
              (ExternalSymbol es_name es_external es_module_name es_original_name es_access) cs)"
    by (simp add: visit_Use_symbol_def)
next
  assume "visit_SubroutineCall cs resolved args = Inr (st, cs') \<and> symtab_no_chain cs"
  then show "symtab_no_chain cs'"
    by (auto dest: visit_SubroutineCall_no_chain)
next
  assume l: "load_intrinsic load_module cs remote_sym = Inr (fn, cs'', loaded) \<and> symtab_no_chain cs"
  then show "symtab_no_chain cs''" by (auto dest: load_intrinsic_no_chain)
  from l show "no_chain fn" by (auto dest: load_intrinsic_no_chain)
qed

text \<open>
  C6 at \<open>use b, only: f\<close>, where \<open>f\<close> is an external symbol of \<open>b\<close> for a subroutine of
  \<open>a\<close>: the program's \<open>f\<close> points at the subroutine.
\<close>

theorem no_external_chains_witness:
  "visit_Use no_loader program_visitor use_b_only_f = Inr program_visitor_after
   \<and> symtab_no_chain (current_scope program_visitor_after)
   \<and> resolve_symbol (current_scope program_visitor_after) ''f''
       = Some (ExternalSymbol ''f'' (Subroutine ''f'' [] Source) ''a'' ''f'' Public)"
proof -
  have m: "used_module no_loader program_visitor (m_module use_b_only_f)
      = Inr (Module ''b'' module_b_symtab [''a''])"
    by (simp add: program_visitor_def use_b_only_f_def example_used_module)
  have c: "symtab_no_chain (current_scope program_visitor)"
    by (simp add: program_visitor_def global_with_b_def scope_no_chain_def)
  have b: "symtab_no_chain module_b_symtab"
    by (simp add: module_b_symtab_def scope_no_chain_def)
  have "symtab_no_chain (current_scope program_visitor_after)"
    using no_external_chains
      [of no_loader program_visitor use_b_only_f program_visitor_after, THEN conjunct1]
      example_visit_Use c b m
    by simp
  moreover have "resolve_symbol (current_scope program_visitor_after) ''f''
       = Some (ExternalSymbol ''f'' (Subroutine ''f'' [] Source) ''a'' ''f'' Public)"
    by (simp add: program_visitor_after_def)
  ultimately show ?thesis using example_visit_Use by simp
qed

text \<open>
  C7 (as amended). A typed declaration of a name that the current scope already has
  overwrites it when that scope is the root scope and fails with \<open>AlreadyDefined\<close> in
  every other scope. A subroutine whose name the enclosing scope already has as a
  subroutine, and a function whose name it already has as a function, fails with
  \<open>AlreadyDefined\<close>, at the root scope too, unless the existing one has the interactive
  ABI, in which case the new one takes its place. A successful insertion binds the
  name to the new symbol and leaves every other name of the scope, and the scope's
  parent, as they were.
\<close>

theorem redeclaration_rules:
  "(scope_defines cs name \<longrightarrow>
      visit_Declaration cs name (Inr var) =
        (if parent cs = None then Inr (scope_insert name var cs) else Inl AlreadyDefined))
   \<and> (map_of (scope parent_scope) name = Some (Subroutine n args m_abi) \<longrightarrow>
        visit_Subroutine parent_scope name asr =
          (if m_abi = Interactive then Inr (scope_insert name asr parent_scope)
           else Inl AlreadyDefined))
   \<and> (map_of (scope parent_scope) name = Some (Function n args m_abi) \<longrightarrow>
        visit_Function parent_scope name asr =
          (if m_abi = Interactive then Inr (scope_insert name asr parent_scope)
           else Inl AlreadyDefined))
   \<and> map_of (scope (scope_insert name s cs)) name' =
        (if name' = name then Some s else map_of (scope cs) name')
   \<and> parent (scope_insert name s cs) = parent cs"
proof (intro conjI impI)
  assume "scope_defines cs name"
  then show "visit_Declaration cs name (Inr var) =
        (if parent cs = None then Inr (scope_insert name var cs) else Inl AlreadyDefined)"
    by (simp add: visit_Declaration_def)
next
  assume "map_of (scope parent_scope) name = Some (Subroutine n args m_abi)"
  then show "visit_Subroutine parent_scope name asr =
          (if m_abi = Interactive then Inr (scope_insert name asr parent_scope)
           else Inl AlreadyDefined)"
    by (simp add: visit_Subroutine_def)
next
  assume "map_of (scope parent_scope) name = Some (Function n args m_abi)"
  then show "visit_Function parent_scope name asr =
          (if m_abi = Interactive then Inr (scope_insert name asr parent_scope)
           else Inl AlreadyDefined)"
    by (simp add: visit_Function_def)
next
  show "map_of (scope (scope_insert name s cs)) name' =
        (if name' = name then Some s else map_of (scope cs) name')"
    by (rule scope_insert_lookup)
next
  show "parent (scope_insert name s cs) = parent cs"
    by (rule parent_scope_insert)
qed

text \<open>
  C7 at a variable declared again in an inner scope and in the root scope, and at a
  subroutine over an interactive one.
\<close>

theorem redeclaration_rules_witness:
  "visit_Declaration inner_with_x ''x'' (Inr (Variable ''x'' real4)) = Inl AlreadyDefined
   \<and> visit_Declaration (SymbolTable [(''x'', Variable ''x'' int4)] None) ''x''
       (Inr (Variable ''x'' real4))
     = Inr (SymbolTable [(''x'', Variable ''x'' real4)] None)
   \<and> visit_Subroutine root_with_interactive_s ''s'' (Subroutine ''s'' [] Source)
     = Inr (SymbolTable [(''s'', Subroutine ''s'' [] Source)] None)"
  using redeclaration_rules [of inner_with_x "''x''" "Variable ''x'' real4"]
    redeclaration_rules [of "SymbolTable [(''x'', Variable ''x'' int4)] None" "''x''"
      "Variable ''x'' real4"]
    redeclaration_rules [where parent_scope = root_with_interactive_s and name = "''s''"
      and n = "''s''" and args = "[]" and m_abi = Interactive
      and asr = "Subroutine ''s'' [] Source"]
  by (simp add: inner_with_x_def root_with_interactive_s_def scope_defines_def scope_insert_def)

text \<open>
  C7 as stated fails at the root scope for a subroutine: the name exists there, the
  scope has no parent, and the new subroutine is refused.
\<close>

theorem root_subroutine_counterexample:
  "parent root_with_s = None
   \<and> scope_defines root_with_s ''s''
   \<and> visit_Subroutine root_with_s ''s'' (Subroutine ''s'' [] Source) = Inl AlreadyDefined"
  by (simp add: root_with_s_def scope_defines_def visit_Subroutine_def)

text \<open>
  C8. A \<open>use\<close> of a module appends the module's name to the dependency list of the
  current unit only if the name is not in it yet, and so does the on-demand load of an
  intrinsic module in either pass; a list without duplicates stays without duplicates.
  The list starts empty at the head of a module or program, so after the unit's \<open>use\<close>
  statements it has no duplicates.
\<close>

theorem dependencies_distinct:
  "(visit_Use load_module v x = Inr v' \<longrightarrow>
      current_module_dependencies v' =
        (if m_module x \<in> set (current_module_dependencies v)
         then current_module_dependencies v
         else current_module_dependencies v @ [m_module x])
      \<and> (distinct (current_module_dependencies v) \<longrightarrow> distinct (current_module_dependencies v')))
   \<and> (visit_Module_uses load_module v0 m_use = Inr v1 \<longrightarrow>
        distinct (current_module_dependencies v1))
   \<and> (SymbolTableVisitor_visit_FuncCallOrArray load_module v var_name remote_sym = Inr (s, v2)
        \<and> distinct (current_module_dependencies v) \<longrightarrow>
        distinct (current_module_dependencies v2))
   \<and> (BodyVisitor_visit_FuncCallOrArray load_module cs (Some (Module n st deps)) remote_sym
          = Inr (fn, cs', current_module')
        \<and> distinct deps \<longrightarrow>
        (\<exists>deps' m_name. current_module' = Some (Module n st deps') \<and> distinct deps'
           \<and> deps' = (if m_name \<in> set deps then deps else deps @ [m_name])))"
proof (intro conjI impI)
  assume u: "visit_Use load_module v x = Inr v'"
  then show d: "current_module_dependencies v' =
        (if m_module x \<in> set (current_module_dependencies v)
         then current_module_dependencies v
         else current_module_dependencies v @ [m_module x])"
    by (rule visit_Use_dependencies)
  assume "distinct (current_module_dependencies v)"
  with d show "distinct (current_module_dependencies v')" by (simp split: if_splits)
next
  assume "visit_Module_uses load_module v0 m_use = Inr v1"
  then show "distinct (current_module_dependencies v1)"
    by (auto simp: visit_Module_uses_def dest: visit_uses_distinct)
next
  assume "SymbolTableVisitor_visit_FuncCallOrArray load_module v var_name remote_sym = Inr (s, v2)
        \<and> distinct (current_module_dependencies v)"
  then show "distinct (current_module_dependencies v2)"
    by (auto simp: SymbolTableVisitor_visit_FuncCallOrArray_def present_iff
        split: option.splits sum.splits if_splits)
next
  assume "BodyVisitor_visit_FuncCallOrArray load_module cs (Some (Module n st deps)) remote_sym
          = Inr (fn, cs', current_module')
        \<and> distinct deps"
  then show "\<exists>deps' m_name. current_module' = Some (Module n st deps') \<and> distinct deps'
           \<and> deps' = (if m_name \<in> set deps then deps else deps @ [m_name])"
    by (auto simp: BodyVisitor_visit_FuncCallOrArray_def present_iff
        split: option.splits sum.splits if_splits)
qed

text \<open>
  C8 at two \<open>use\<close> statements of one module: \<open>b\<close> is in the dependency list once.
\<close>

theorem dependencies_distinct_witness:
  "visit_Use no_loader program_visitor use_b_only_f = Inr program_visitor_after
   \<and> current_module_dependencies program_visitor_after = [''b'']
   \<and> visit_Use no_loader program_visitor_after use_b_f_as_g = Inr program_visitor_final
   \<and> current_module_dependencies program_visitor_final = [''b'']"
proof -
  have "current_module_dependencies program_visitor_after = [''b'']"
    using dependencies_distinct
      [of no_loader program_visitor use_b_only_f program_visitor_after, THEN conjunct1]
      example_visit_Use
    by (simp add: program_visitor_def use_b_only_f_def)
  moreover have "current_module_dependencies program_visitor_final = [''b'']"
    using dependencies_distinct
      [of no_loader program_visitor_after use_b_f_as_g program_visitor_final, THEN conjunct1]
      example_visit_Use_again
    by (simp add: program_visitor_after_def use_b_f_as_g_def)
  ultimately show ?thesis
    using example_visit_Use example_visit_Use_again by simp
qed

text \<open>
  C9, at the input where the code departs from it: the target is a real pointer and the
  value a plain integer, so the pointer test passes and the base types differ. No error
  is raised and no \<open>Associate\<close> node is built: the visit returns with \<open>tmp\<close> still at
  the lowered value, an expression.
\<close>

theorem visit_Associate_base_type_mismatch:
  "visit_Associate (Inr (Var ''p'' real4_pointer None)) (Inr (Var ''i'' int4 None))
     = Inr (expr_node (Var ''i'' int4 None))
   \<and> is_pointer (expr_type (Var ''p'' real4_pointer None))
   \<and> \<not> is_pointer (expr_type (Var ''i'' int4 None))
   \<and> base_family (type_tag (expr_type (Var ''p'' real4_pointer None)))
       \<noteq> base_family (type_tag (expr_type (Var ''i'' int4 None)))"
  by (simp add: visit_Associate_def is_pointer_def is_same_type_pointer_def
      real4_pointer_def int4_def)

text \<open>
  C10. \<open>visit_Compare\<close> rejects a comparison in which neither operand has type
  Integer or Real, unless both operands have type Complex or the operator is \<open>.eq.\<close>
  or \<open>.neq.\<close>, and it raises no other diagnostic. Every \<open>Compare\<close> node it produces has
  the result type Logical of kind 4 and no folded value, whatever the operand types, the
  kinds and the operator; for operands of the twelve types the tables list, every
  comparison that is not rejected produces one.
\<close>

theorem visit_Compare_result:
  "((visit_Compare op l r = Inl CompareTypeMismatch) =
      ((type_tag (expr_type l) \<noteq> Integer \<and> type_tag (expr_type l) \<noteq> Real)
       \<and> (type_tag (expr_type r) \<noteq> Integer \<and> type_tag (expr_type r) \<noteq> Real)
       \<and> \<not> ((type_tag (expr_type l) = Complex \<and> type_tag (expr_type r) = Complex)
              \<or> op = Eq \<or> op = NotEq)))
   \<and> (visit_Compare op l r = Inl e \<longrightarrow> e = CompareTypeMismatch \<or> e = Abort)
   \<and> (visit_Compare op l r = Inr node \<longrightarrow>
        (\<exists>l' r'. node = Compare l' op r' \<lparr>type_tag = Logical, m_kind = 4, n_dims = 0\<rparr> None))
   \<and> (type_tag (expr_type l) \<noteq> Class \<and> type_tag (expr_type r) \<noteq> Class \<longrightarrow>
        (if (type_tag (expr_type l) \<noteq> Integer \<and> type_tag (expr_type l) \<noteq> Real)
            \<and> (type_tag (expr_type r) \<noteq> Integer \<and> type_tag (expr_type r) \<noteq> Real)
            \<and> \<not> ((type_tag (expr_type l) = Complex \<and> type_tag (expr_type r) = Complex)
                   \<or> op = Eq \<or> op = NotEq)
         then visit_Compare op l r = Inl CompareTypeMismatch
         else (\<exists>l' r'. visit_Compare op l r
                 = Inr (Compare l' op r' \<lparr>type_tag = Logical, m_kind = 4, n_dims = 0\<rparr> None))))"
proof -
  let ?rej = "(type_tag (expr_type l) \<noteq> Integer \<and> type_tag (expr_type l) \<noteq> Real)
       \<and> (type_tag (expr_type r) \<noteq> Integer \<and> type_tag (expr_type r) \<noteq> Real)
       \<and> \<not> ((type_tag (expr_type l) = Complex \<and> type_tag (expr_type r) = Complex)
              \<or> op = Eq \<or> op = NotEq)"
  have rej: "visit_Compare op l r = Inl CompareTypeMismatch" if "?rej"
    using that by (simp add: visit_Compare_def Let_def)
  have pass: "visit_Compare op l r =
      (case convert_operands l r of
         Inl e \<Rightarrow> Inl e
       | Inr (l', r', d) \<Rightarrow>
           Inr (Compare l' op r' \<lparr>type_tag = Logical, m_kind = 4, n_dims = 0\<rparr> None))"
    if "\<not> ?rej"
    using that by (auto simp: visit_Compare_def Let_def)
  have err: "e = CompareTypeMismatch \<or> e = Abort" if "visit_Compare op l r = Inl e"
  proof (cases "?rej")
    case True
    from rej [OF True] that show ?thesis by simp
  next
    case False
    from pass [OF False] that obtain e' where "convert_operands l r = Inl e'" "e = e'"
      by (auto split: sum.splits)
    with convert_operands_errors show ?thesis by blast
  qed
  have iff: "(visit_Compare op l r = Inl CompareTypeMismatch) = ?rej"
  proof
    assume m: "visit_Compare op l r = Inl CompareTypeMismatch"
    show "?rej"
    proof (rule ccontr)
      assume n: "\<not> ?rej"
      from pass [OF n] m have "convert_operands l r = Inl CompareTypeMismatch"
        by (auto split: sum.splits)
      from convert_operands_errors [OF this] show False by simp
    qed
  next
    assume "?rej"
    then show "visit_Compare op l r = Inl CompareTypeMismatch" by (rule rej)
  qed
  have node: "\<exists>l' r'. node = Compare l' op r' \<lparr>type_tag = Logical, m_kind = 4, n_dims = 0\<rparr> None"
    if "visit_Compare op l r = Inr node"
  proof (cases "?rej")
    case True
    from rej [OF True] that show ?thesis by simp
  next
    case False
    from pass [OF False] that show ?thesis by (auto split: sum.splits)
  qed
  have listed: "\<exists>l' r'. visit_Compare op l r
        = Inr (Compare l' op r' \<lparr>type_tag = Logical, m_kind = 4, n_dims = 0\<rparr> None)"
    if "type_tag (expr_type l) \<noteq> Class \<and> type_tag (expr_type r) \<noteq> Class" and "\<not> ?rej"
  proof -
    from that(1) obtain l' r' d where "convert_operands l r = Inr (l', r', d)"
      using convert_operands_total [of l r] by blast
    with pass [OF that(2)] show ?thesis by simp
  qed
  show ?thesis
    apply (intro conjI impI)
    subgoal by (rule iff)
    subgoal using err by blast
    subgoal using node by blast
    subgoal using rej listed by (cases "?rej") simp_all
    done
qed

text \<open>
  C10 at an integer compared with a real, and at two logicals compared with \<open>.lt.\<close>.
\<close>

theorem visit_Compare_result_witness:
  "visit_Compare Lt (ConstantInteger 2 int4) (ConstantReal real4)
     = Inr (Compare (ImplicitCast (ConstantInteger 2 int4) IntegerToReal real4 None) Lt
              (ConstantReal real4) \<lparr>type_tag = Logical, m_kind = 4, n_dims = 0\<rparr> None)
   \<and> visit_Compare Lt (ConstantLogical True logical4) (ConstantLogical False logical4)
     = Inl CompareTypeMismatch"
proof -
  have "visit_Compare Lt (ConstantLogical True logical4) (ConstantLogical False logical4)
     = Inl CompareTypeMismatch"
    using visit_Compare_result
      [of Lt "ConstantLogical True logical4" "ConstantLogical False logical4", THEN conjunct1]
    by (simp add: example_tags)
  moreover have "visit_Compare Lt (ConstantInteger 2 int4) (ConstantReal real4)
     = Inr (Compare (ImplicitCast (ConstantInteger 2 int4) IntegerToReal real4 None) Lt
              (ConstantReal real4) \<lparr>type_tag = Logical, m_kind = 4, n_dims = 0\<rparr> None)"
    by (simp add: visit_Compare_def Let_def convert_operands_def find_conversion_candidate_spec
        set_converted_value_spec operand_priority_def spec_priority_def spec_rule_def
        cast_type_def is_pointer_def example_tags)
  ultimately show ?thesis by simp
qed

end
